theory Spec2Isabelle
  imports Complex_Main
begin

section \<open>JavaScript values and the built-ins the bridge relies on\<close>

text \<open>
  The bridge (\<^verbatim>\<open>src/index.ts\<close>) handles dynamically typed values: a cell of the rule
  table and an argument of an OSC message is \<^verbatim>\<open>undefined\<close>, a number or a string.
  Numbers are IEEE doubles in the source. The model keeps them abstract (the type
  variable \<open>'n\<close>), so that every statement holds for whatever the number type is, and
  takes the built-ins of the language that work on numbers as the fields of an
  environment record.
\<close>

datatype 'n jsval = Undefined | Num 'n | Str string

record 'n js_env =
  num_lit :: "int \<Rightarrow> 'n"               \<comment> \<open>the number value of an integer: the nearest double\<close>
  num_String :: "'n \<Rightarrow> string"         \<comment> \<open>\<^verbatim>\<open>String(x)\<close> on a number\<close>
  num_falsy :: "'n \<Rightarrow> bool"            \<comment> \<open>the numbers that are falsy: \<^verbatim>\<open>0\<close>, \<^verbatim>\<open>-0\<close>, \<^verbatim>\<open>NaN\<close>\<close>
  parseFloat :: "string \<Rightarrow> 'n option"   \<comment> \<open>\<^verbatim>\<open>parseFloat(s)\<close>; \<open>None\<close> stands for \<^verbatim>\<open>NaN\<close>\<close>
  Number_of :: "string \<Rightarrow> 'n option"    \<comment> \<open>\<^verbatim>\<open>Number(s)\<close>; \<open>None\<close> stands for \<^verbatim>\<open>NaN\<close>\<close>

text \<open>Truthiness, as \<^verbatim>\<open>if (v)\<close> and \<^verbatim>\<open>v && ...\<close> test it.\<close>

definition truthy :: "'n js_env \<Rightarrow> 'n jsval \<Rightarrow> bool" where
  "truthy env v =
     (case v of Undefined \<Rightarrow> False | Num n \<Rightarrow> \<not> num_falsy env n | Str s \<Rightarrow> s \<noteq> [])"

text \<open>\<^verbatim>\<open>String(v)\<close>.\<close>

definition js_String :: "'n js_env \<Rightarrow> 'n jsval \<Rightarrow> string" where
  "js_String env v =
     (case v of Undefined \<Rightarrow> ''undefined'' | Num n \<Rightarrow> num_String env n | Str s \<Rightarrow> s)"

text \<open>\<^verbatim>\<open>s.split(' ')\<close>: cut at every single space; the empty string gives one empty token.\<close>

fun split_space :: "string \<Rightarrow> string list" where
  "split_space [] = [[]]"
| "split_space (c # cs) =
     (if c = CHR '' '' then [] # split_space cs
      else (case split_space cs of [] \<Rightarrow> [[c]] | w # ws \<Rightarrow> (c # w) # ws))"

text \<open>
  \<^verbatim>\<open>s.trim()\<close>. A \<open>char\<close> is a code unit below 256; the white space of the language in
  that range is tab, line feed, vertical tab, form feed, carriage return, space and the
  no-break space.
\<close>

definition is_white_space :: "char \<Rightarrow> bool" where
  "is_white_space c = ((of_char c :: nat) \<in> {9, 10, 11, 12, 13, 32, 160})"

definition trim :: "string \<Rightarrow> string" where
  "trim s = rev (dropWhile is_white_space (rev (dropWhile is_white_space s)))"

section \<open>MIDI messages\<close>

text \<open>
  What \<^verbatim>\<open>midiOut.send(kind, fields)\<close> is called with. The fields are passed through
  from rule cells without validation, hence \<open>'n jsval\<close>.
\<close>

datatype 'n midi_msg =
    NoteOn "'n jsval" "'n jsval" "'n jsval"    \<comment> \<open>note, velocity, channel\<close>
  | NoteOff "'n jsval" "'n jsval" "'n jsval"   \<comment> \<open>note, velocity, channel\<close>
  | CC "'n jsval" "'n jsval" "'n jsval"        \<comment> \<open>controller, value, channel\<close>
  | Program "'n jsval" "'n jsval"              \<comment> \<open>number, channel\<close>

section \<open>The Quad Cortex preset encoder\<close>

text \<open>
  \<^verbatim>\<open>presetId.match(/^(\d+)([A-H])$/i)\<close>: one or more decimal digits, then exactly one
  letter of A to H in either case, then the end of the input. No digit is a letter of the
  class, so the greedy \<^verbatim>\<open>\d+\<close> takes exactly the longest prefix of digits.
  \<open>toUpperCase\<close> below is \<^verbatim>\<open>match[2].toUpperCase()\<close> on that one letter.
\<close>

definition is_digit :: "char \<Rightarrow> bool" where
  "is_digit c = (c \<in> set ''0123456789'')"

definition is_A_to_H_ci :: "char \<Rightarrow> bool" where
  "is_A_to_H_ci c = (c \<in> set ''ABCDEFGHabcdefgh'')"

definition match_preset :: "string \<Rightarrow> (string \<times> char) option" where
  "match_preset presetId =
     (case dropWhile is_digit presetId of
        [c] \<Rightarrow> if takeWhile is_digit presetId \<noteq> [] \<and> is_A_to_H_ci c
               then Some (takeWhile is_digit presetId, c) else None
      | _ \<Rightarrow> None)"

text \<open>
  \<^verbatim>\<open>parseInt(digits, 10)\<close> on a string of decimal digits: the source gets the number
  value of the integer that the digits denote. \<open>parseInt\<close> below is that integer, and
  \<open>num_lit env\<close> of it is the number the source holds (they differ above \<open>2^53\<close>, where
  the double is rounded). Rounding to a double is monotone and leaves 1 and 32 fixed, so
  the range test \<^verbatim>\<open>bank < 1 || bank > 32\<close> decides on the integer as it does on the
  number; inside the range the number is exact, and so is the program number.
\<close>

definition digit_value :: "char \<Rightarrow> nat" where
  "digit_value c = of_char c - 48"

definition parseInt :: "string \<Rightarrow> nat" where
  "parseInt ds = foldl (\<lambda>acc c. 10 * acc + digit_value c) 0 ds"

definition toUpperCase :: "char \<Rightarrow> char" where
  "toUpperCase c =
     (if 97 \<le> (of_char c :: nat) \<and> (of_char c :: nat) \<le> 122
      then char_of ((of_char c :: nat) - 32) else c)"

datatype 'n preset_error = InvalidFormat string | InvalidBank 'n

text \<open>
  \<^verbatim>\<open>sendQuadCortexPreset(presetId, channel, midiOut, setlist)\<close>. The result is either
  the error that is logged before the early return (nothing was sent; the bank of the
  message is the number the source holds), or the messages sent to the device, in order.
\<close>

definition sendQuadCortexPreset ::
  "'n js_env \<Rightarrow> string \<Rightarrow> 'n jsval \<Rightarrow> 'n jsval \<Rightarrow> 'n preset_error + 'n midi_msg list" where
  "sendQuadCortexPreset env presetId chan setlist =
     (case match_preset presetId of
        None \<Rightarrow> Inl (InvalidFormat presetId)
      | Some (m1, m2) \<Rightarrow>
          (let bank = parseInt m1;
               presetChar = toUpperCase m2
           in if bank < 1 \<or> bank > 32 then Inl (InvalidBank (num_lit env (int bank)))
              else
                (let presetOffset = int (of_char presetChar) - 65;
                     programChangeNumber = (int bank - 1) * 8 + presetOffset
                 in Inr [CC (Num (num_lit env 0)) (Num (num_lit env 0)) chan,
                         CC (Num (num_lit env 32)) setlist chan,
                         Program (Num (num_lit env programChangeNumber)) chan])))"

text \<open>The messages a call of the encoder puts on the wire.\<close>

definition emitted :: "'n preset_error + 'n midi_msg list \<Rightarrow> 'n midi_msg list" where
  "emitted r = (case r of Inl e \<Rightarrow> [] | Inr ms \<Rightarrow> ms)"

section \<open>The rule table and the session state\<close>

text \<open>
  \<^verbatim>\<open>interface Mapping\<close>. The interface declares strings and numbers, but the loader
  below stores whatever \<^verbatim>\<open>Number\<close> makes of a cell, and the handler tests the fields
  with \<^verbatim>\<open>String(...)\<close>, truthiness and \<^verbatim>\<open>!== undefined\<close>; so every field is a
  \<open>jsval\<close>.
\<close>

record 'n Mapping =
  osc_in_address :: "'n jsval"
  osc_in_args :: "'n jsval"
  osc_out_address :: "'n jsval"
  osc_out_args :: "'n jsval"
  midi_channel :: "'n jsval"
  midi_type :: "'n jsval"
  midi_note :: "'n jsval"
  midi_velocity :: "'n jsval"
  midi_controller :: "'n jsval"
  midi_value :: "'n jsval"
  qc_preset_id :: "'n jsval"
  setlist :: "'n jsval"

text \<open>The two module-level variables: \<^verbatim>\<open>mappings\<close> and \<^verbatim>\<open>currentSetlist\<close>.\<close>

record 'n session =
  mappings :: "'n Mapping list"
  currentSetlist :: 'n

section \<open>Loading the table and starting up\<close>

text \<open>
  A row as the CSV parser delivers it: an object from column names to cell texts.
  \<^verbatim>\<open>loadMappings\<close> converts each cell: a non-empty cell that \<^verbatim>\<open>Number\<close> can read
  becomes a number, an empty cell becomes \<^verbatim>\<open>undefined\<close>, any other cell stays a string.
\<close>

type_synonym csv_row = "string \<rightharpoonup> string"

definition convert_cell :: "'n js_env \<Rightarrow> string \<Rightarrow> 'n jsval" where
  "convert_cell env v =
     (if v \<noteq> [] \<and> Number_of env v \<noteq> None then Num (the (Number_of env v))
      else if v = [] then Undefined else Str v)"

definition loaded_field :: "'n js_env \<Rightarrow> csv_row \<Rightarrow> string \<Rightarrow> 'n jsval" where
  "loaded_field env row key = (case row key of None \<Rightarrow> Undefined | Some v \<Rightarrow> convert_cell env v)"

definition row_to_mapping :: "'n js_env \<Rightarrow> csv_row \<Rightarrow> 'n Mapping" where
  "row_to_mapping env row =
     \<lparr> osc_in_address = loaded_field env row ''osc_in_address'',
       osc_in_args = loaded_field env row ''osc_in_args'',
       osc_out_address = loaded_field env row ''osc_out_address'',
       osc_out_args = loaded_field env row ''osc_out_args'',
       midi_channel = loaded_field env row ''midi_channel'',
       midi_type = loaded_field env row ''midi_type'',
       midi_note = loaded_field env row ''midi_note'',
       midi_velocity = loaded_field env row ''midi_velocity'',
       midi_controller = loaded_field env row ''midi_controller'',
       midi_value = loaded_field env row ''midi_value'',
       qc_preset_id = loaded_field env row ''qc_preset_id'',
       setlist = loaded_field env row ''setlist'' \<rparr>"

text \<open>
  \<^verbatim>\<open>loadMappings(filePath)\<close> pipes the read stream of the file into the CSV parser and
  listens on the parser: \<^verbatim>\<open>fs.createReadStream(filePath).pipe(csv()).on('data', ...)
  .on('end', ...).on('error', ...)\<close>. What the file system and the parser do is outside
  the source, and is the argument: the read stream fails (the file cannot be opened or
  read), the parser fails, or the parser delivers the rows and ends. The promise is
  resolved with the converted rows in file order, or rejected with the parser's error.
  An error of the read stream has no listener (\<^verbatim>\<open>pipe\<close> returns the parser, and
  forwards no error): the promise is never settled and the error event is uncaught.
\<close>

datatype source_outcome = ReadFails | ParseFails | Rows "csv_row list"

datatype 'a promise = Resolved 'a | Rejected | UncaughtStreamError

definition loadMappings :: "'n js_env \<Rightarrow> source_outcome \<Rightarrow> 'n Mapping list promise" where
  "loadMappings env source =
     (case source of
        ReadFails \<Rightarrow> UncaughtStreamError
      | ParseFails \<Rightarrow> Rejected
      | Rows rows \<Rightarrow> Resolved (map (row_to_mapping env) rows))"

text \<open>
  The MIDI output of \<^verbatim>\<open>main\<close>: the configured device when it is listed, else the
  first listed device, else none; a device that fails to open (one not among \<open>openable\<close>)
  leaves \<^verbatim>\<open>midiOut\<close> null.
\<close>

definition init_midi :: "string list \<Rightarrow> string \<Rightarrow> string list \<Rightarrow> string option" where
  "init_midi openable name outputs =
     (if name \<noteq> [] \<and> name \<in> set outputs
      then (if name \<in> set openable then Some name else None)
      else (case outputs of
              [] \<Rightarrow> None
            | first # _ \<Rightarrow> if first \<in> set openable then Some first else None))"

text \<open>
  \<^verbatim>\<open>main\<close>: the table is loaded once. A rejected load is caught and ends the process
  with exit status 1 (\<^verbatim>\<open>process.exit(1)\<close> in the \<^verbatim>\<open>catch\<close>); an uncaught error of the read
  stream ends the process without reaching the \<^verbatim>\<open>catch\<close>; otherwise the handler is
  registered with the loaded table, the setlist 0 (the initial value of
  \<^verbatim>\<open>currentSetlist\<close>) and the MIDI output. Opening the OSC sockets belongs to the
  transport and is not modelled.
\<close>

datatype 'n process = Exited nat | Crashed | Running "'n session" "string option"

definition main ::
  "'n js_env \<Rightarrow> source_outcome \<Rightarrow> string list \<Rightarrow> string \<Rightarrow> string list \<Rightarrow> 'n process" where
  "main env source openable name outputs =
     (case loadMappings env source of
        Rejected \<Rightarrow> Exited 1
      | UncaughtStreamError \<Rightarrow> Crashed
      | Resolved loaded \<Rightarrow>
          Running \<lparr> mappings = loaded, currentSetlist = num_lit env 0 \<rparr>
                  (init_midi openable name outputs))"

section \<open>The message handler\<close>

text \<open>What a call of the handler sends, and the exception it ends with, if any.\<close>

datatype 'n osc_arg = FloatArg 'n | PlainArg "'n jsval"

datatype 'n osc_message = Message "'n jsval" "'n osc_arg list"

datatype js_error = TypeError

record 'n effects =
  osc_sent :: "'n osc_message list"
  midi_sent :: "'n midi_msg list"
  thrown :: "js_error option"

definition no_effects :: "'n effects" where
  "no_effects = \<lparr> osc_sent = [], midi_sent = [], thrown = None \<rparr>"

text \<open>\<^verbatim>\<open>address.endsWith('/') ? address.slice(0, -1) : address\<close>\<close>

definition normalizeAddress :: "string \<Rightarrow> string" where
  "normalizeAddress address =
     (if address \<noteq> [] \<and> last address = CHR ''/'' then butlast address else address)"

text \<open>\<^verbatim>\<open>args[0]\<close>, which is \<^verbatim>\<open>undefined\<close> on an empty argument list.\<close>

definition first_arg :: "'n jsval list \<Rightarrow> 'n jsval" where
  "first_arg args = (case args of [] \<Rightarrow> Undefined | a # _ \<Rightarrow> a)"

text \<open>The callback of \<^verbatim>\<open>mappings.find\<close>.\<close>

definition rule_matches :: "'n js_env \<Rightarrow> string \<Rightarrow> 'n jsval list \<Rightarrow> 'n Mapping \<Rightarrow> bool" where
  "rule_matches env normalizedAddress args m =
     (if osc_in_address m \<noteq> Str normalizedAddress then False
      else if truthy env (osc_in_args m) then
        (let expectedArgs = split_space (js_String env (osc_in_args m));
             receivedArgs = map (js_String env) args
         in if length expectedArgs \<noteq> length receivedArgs then False
            else list_all (\<lambda>i. expectedArgs ! i = receivedArgs ! i) [0..<length expectedArgs])
      else True)"

definition find_mapping ::
  "'n js_env \<Rightarrow> 'n Mapping list \<Rightarrow> string \<Rightarrow> 'n jsval list \<Rightarrow> 'n Mapping option" where
  "find_mapping env table normalizedAddress args =
     List.find (rule_matches env normalizedAddress args) table"

text \<open>The OSC output leg: the arguments, and the message sent (if any).\<close>

definition finalArgs :: "'n js_env \<Rightarrow> 'n Mapping \<Rightarrow> 'n jsval list \<Rightarrow> 'n osc_arg list" where
  "finalArgs env mapping args =
     (if osc_out_args mapping \<noteq> Undefined \<and> trim (js_String env (osc_out_args mapping)) \<noteq> []
      then map (\<lambda>arg. case parseFloat env arg of None \<Rightarrow> PlainArg (Str arg) | Some num \<Rightarrow> FloatArg num)
               (split_space (js_String env (osc_out_args mapping)))
      else map (\<lambda>arg. case arg of Num x \<Rightarrow> FloatArg x | _ \<Rightarrow> PlainArg arg) args)"

definition osc_leg :: "'n js_env \<Rightarrow> 'n Mapping \<Rightarrow> 'n jsval list \<Rightarrow> 'n osc_message list" where
  "osc_leg env mapping args =
     (if truthy env (osc_out_address mapping)
      then [Message (osc_out_address mapping) (finalArgs env mapping args)]
      else [])"

text \<open>
  The MIDI output leg. \<^verbatim>\<open>midiOut\<close> is the open device or null. The value of a control
  change or program change is
  \<^verbatim>\<open>midi_value !== undefined ? midi_value : (typeof args[0] === 'number' ? args[0] : 0)\<close>.
  A preset identifier that is a number has no \<^verbatim>\<open>match\<close> method: the call of the
  encoder throws a \<^verbatim>\<open>TypeError\<close>.
\<close>

definition value_or_first_arg :: "'n js_env \<Rightarrow> 'n Mapping \<Rightarrow> 'n jsval list \<Rightarrow> 'n jsval" where
  "value_or_first_arg env mapping args =
     (if midi_value mapping \<noteq> Undefined then midi_value mapping
      else (case first_arg args of Num x \<Rightarrow> Num x | _ \<Rightarrow> Num (num_lit env 0)))"

definition midi_leg ::
  "'n js_env \<Rightarrow> 'n \<Rightarrow> 'n Mapping \<Rightarrow> 'n jsval list \<Rightarrow> string option
     \<Rightarrow> js_error + 'n midi_msg list" where
  "midi_leg env current mapping args midiOut =
     (if midiOut \<noteq> None \<and> truthy env (midi_type mapping) \<and> midi_channel mapping \<noteq> Undefined
      then
        (let chan = midi_channel mapping in
         if midi_type mapping = Str ''note_on'' then
           (if midi_note mapping \<noteq> Undefined \<and> midi_velocity mapping \<noteq> Undefined
            then Inr [NoteOn (midi_note mapping) (midi_velocity mapping) chan] else Inr [])
         else if midi_type mapping = Str ''note_off'' then
           (if midi_note mapping \<noteq> Undefined \<and> midi_velocity mapping \<noteq> Undefined
            then Inr [NoteOff (midi_note mapping) (midi_velocity mapping) chan] else Inr [])
         else if midi_type mapping = Str ''cc'' then
           (if midi_controller mapping \<noteq> Undefined
            then Inr [CC (midi_controller mapping) (value_or_first_arg env mapping args) chan]
            else Inr [])
         else if midi_type mapping = Str ''pc'' then
           Inr [Program (value_or_first_arg env mapping args) chan]
         else if midi_type mapping = Str ''qc_preset'' then
           (if truthy env (qc_preset_id mapping)
            then
              (let sl = (if setlist mapping \<noteq> Undefined then setlist mapping else Num current)
               in case qc_preset_id mapping of
                    Str presetId \<Rightarrow> Inr (emitted (sendQuadCortexPreset env presetId chan sl))
                  | _ \<Rightarrow> Inl TypeError)
            else Inr [])
         else Inr [])
      else Inr [])"

text \<open>
  \<^verbatim>\<open>handleOscMessage(msg, oscClient, midiOut)\<close>, with \<^verbatim>\<open>msg = [address, ...args]\<close>. The
  result is the session after the call and what the call sent.
\<close>

definition handleOscMessage ::
  "'n js_env \<Rightarrow> 'n session \<Rightarrow> string \<times> 'n jsval list \<Rightarrow> string option
     \<Rightarrow> 'n session \<times> 'n effects" where
  "handleOscMessage env st msg midiOut =
     (let address = fst msg; args = snd msg;
          normalizedAddress = normalizeAddress address
      in if normalizedAddress = ''/setlist'' then
           (case first_arg args of
              Num x \<Rightarrow> (st\<lparr>currentSetlist := x\<rparr>, no_effects)
            | _ \<Rightarrow> (st, no_effects))
         else
           (case find_mapping env (mappings st) normalizedAddress args of
              None \<Rightarrow> (st, no_effects)
            | Some mapping \<Rightarrow>
                (st, \<lparr> osc_sent = osc_leg env mapping args,
                       midi_sent = (case midi_leg env (currentSetlist st) mapping args midiOut of
                                      Inl e \<Rightarrow> [] | Inr ms \<Rightarrow> ms),
                       thrown = (case midi_leg env (currentSetlist st) mapping args midiOut of
                                   Inl e \<Rightarrow> Some e | Inr ms \<Rightarrow> None) \<rparr>)))"

text \<open>
  The server calls the handler once for each inbound message, in order of arrival; the
  session after a sequence of messages.
\<close>

fun handle_all ::
  "'n js_env \<Rightarrow> 'n session \<Rightarrow> (string \<times> 'n jsval list) list \<Rightarrow> string option \<Rightarrow> 'n session" where
  "handle_all env st [] midiOut = st"
| "handle_all env st (msg # msgs) midiOut =
     handle_all env (fst (handleOscMessage env st msg midiOut)) msgs midiOut"

section \<open>A sample environment\<close>

text \<open>
  A finite excerpt of the built-ins over the rationals, enough to run the examples of
  this development: \<open>String\<close>, \<open>parseFloat\<close> and \<open>Number\<close> are given on the few
  numerals the examples use, each with the number it denotes. \<^verbatim>\<open>Number\<close> reads a text
  of white space as 0 (\<^verbatim>\<open>Number(' ')\<close> is 0), \<^verbatim>\<open>parseFloat\<close> does not
  (\<^verbatim>\<open>parseFloat(' ')\<close> is \<^verbatim>\<open>NaN\<close>).
\<close>

definition sample_numbers :: "(string \<times> rat) list" where
  "sample_numbers =
     [(''0'', 0), (''1'', 1), (''1.5'', 3 / 2), (''2'', 2), (''3'', 3), (''5'', 5), (''7'', 7),
      (''60'', 60), (''64'', 64), (''100'', 100)]"

definition js_sample :: "rat js_env" where
  "js_sample =
     \<lparr> num_lit = of_int,
       num_String = (\<lambda>x. case map_of (map (\<lambda>(s, y). (y, s)) sample_numbers) x of
                            Some s \<Rightarrow> s | None \<Rightarrow> ''?''),
       num_falsy = (\<lambda>x. x = 0),
       parseFloat = map_of sample_numbers,
       Number_of = map_of (('' '', 0) # sample_numbers) \<rparr>"

text \<open>
  A sample table, given as the rows of a CSV file and loaded by \<open>row_to_mapping\<close>:
  \<^verbatim>\<open>
  osc_in_address,osc_in_args,osc_out_address,osc_out_args,midi_channel,midi_type,midi_controller,midi_value,setlist,qc_preset_id
  /a,0,/zero,,,,,,,
  /a,5,/five,,,,,,,
  /foo,,/bar,,1,pc,,,,
  /q,,/out,1.5 on,1,qc_preset,,,,2A
  /q7,,,,1,qc_preset,,,7,2A
  /cc,,,,1,cc,64,100,,
  /setlist,,/never,,1,pc,,,,
  \<close>
  and one more rule, whose preset identifier is all digits:
  \<^verbatim>\<open>
  /n,,,,1,qc_preset,,,,5
  \<close>
  and a rule whose \<open>osc_out_args\<close> cell is one space:
  \<^verbatim>\<open>
  /b,,/fwd, ,,,,,,
  \<close>
  An empty cell and a missing column both load as \<^verbatim>\<open>undefined\<close>, so the rows below
  list the non-empty cells only. The rule \<open>rule_blank_string\<close> is not loaded from a
  row: its \<open>osc_out_args\<close> is a string of two spaces, which the handler accepts but the
  loader never produces.
\<close>

definition rule_zero :: "rat Mapping" where
  "rule_zero = row_to_mapping js_sample
     [''osc_in_address'' \<mapsto> ''/a'', ''osc_in_args'' \<mapsto> ''0'', ''osc_out_address'' \<mapsto> ''/zero'']"

definition rule_five :: "rat Mapping" where
  "rule_five = row_to_mapping js_sample
     [''osc_in_address'' \<mapsto> ''/a'', ''osc_in_args'' \<mapsto> ''5'', ''osc_out_address'' \<mapsto> ''/five'']"

definition rule_foo :: "rat Mapping" where
  "rule_foo = row_to_mapping js_sample
     [''osc_in_address'' \<mapsto> ''/foo'', ''osc_out_address'' \<mapsto> ''/bar'',
      ''midi_channel'' \<mapsto> ''1'', ''midi_type'' \<mapsto> ''pc'']"

definition rule_q :: "rat Mapping" where
  "rule_q = row_to_mapping js_sample
     [''osc_in_address'' \<mapsto> ''/q'', ''osc_out_address'' \<mapsto> ''/out'',
      ''osc_out_args'' \<mapsto> ''1.5 on'', ''midi_channel'' \<mapsto> ''1'',
      ''midi_type'' \<mapsto> ''qc_preset'', ''qc_preset_id'' \<mapsto> ''2A'']"

definition rule_q7 :: "rat Mapping" where
  "rule_q7 = row_to_mapping js_sample
     [''osc_in_address'' \<mapsto> ''/q7'', ''midi_channel'' \<mapsto> ''1'',
      ''midi_type'' \<mapsto> ''qc_preset'', ''setlist'' \<mapsto> ''7'', ''qc_preset_id'' \<mapsto> ''2A'']"

definition rule_cc :: "rat Mapping" where
  "rule_cc = row_to_mapping js_sample
     [''osc_in_address'' \<mapsto> ''/cc'', ''midi_channel'' \<mapsto> ''1'', ''midi_type'' \<mapsto> ''cc'',
      ''midi_controller'' \<mapsto> ''64'', ''midi_value'' \<mapsto> ''100'']"

definition rule_setlist :: "rat Mapping" where
  "rule_setlist = row_to_mapping js_sample
     [''osc_in_address'' \<mapsto> ''/setlist'', ''osc_out_address'' \<mapsto> ''/never'',
      ''midi_channel'' \<mapsto> ''1'', ''midi_type'' \<mapsto> ''pc'']"

definition rule_numeric_preset :: "rat Mapping" where
  "rule_numeric_preset = row_to_mapping js_sample
     [''osc_in_address'' \<mapsto> ''/n'', ''midi_channel'' \<mapsto> ''1'',
      ''midi_type'' \<mapsto> ''qc_preset'', ''qc_preset_id'' \<mapsto> ''5'']"

definition rule_blank_cell :: "rat Mapping" where
  "rule_blank_cell = row_to_mapping js_sample
     [''osc_in_address'' \<mapsto> ''/b'', ''osc_out_address'' \<mapsto> ''/fwd'',
      ''osc_out_args'' \<mapsto> '' '']"

definition rule_blank_string :: "rat Mapping" where
  "rule_blank_string =
     \<lparr> osc_in_address = Str ''/w'', osc_in_args = Undefined,
       osc_out_address = Str ''/fwd'', osc_out_args = Str ''  '', midi_channel = Undefined,
       midi_type = Undefined, midi_note = Undefined, midi_velocity = Undefined,
       midi_controller = Undefined, midi_value = Undefined, qc_preset_id = Undefined,
       setlist = Undefined \<rparr>"

definition sample_session :: "rat session" where
  "sample_session =
     \<lparr> mappings = [rule_zero, rule_five, rule_foo, rule_q, rule_q7, rule_cc, rule_setlist],
       currentSetlist = 3 \<rparr>"

section \<open>Properties of the preset encoder\<close>

lemma match_preset_digits_letter:
  assumes "set ds \<subseteq> set ''0123456789''" and "ds \<noteq> []" and "c \<in> set ''ABCDEFGHabcdefgh''"
  shows "match_preset (ds @ [c]) = Some (ds, c)"
proof -
  have d: "\<And>x. x \<in> set ds \<Longrightarrow> is_digit x"
    using assms(1) unfolding is_digit_def by blast
  have nd: "\<not> is_digit c"
    using assms(3) by (auto simp: is_digit_def)
  have t: "takeWhile is_digit (ds @ [c]) = ds"
    using d nd by simp
  have dr: "dropWhile is_digit (ds @ [c]) = [c]"
    using d nd by simp
  show ?thesis
    using assms(2,3) by (simp add: match_preset_def t dr is_A_to_H_ci_def)
qed

lemma match_preset_SomeD:
  assumes "match_preset s = Some (ds, c)"
  shows "s = ds @ [c] \<and> ds \<noteq> [] \<and> set ds \<subseteq> set ''0123456789'' \<and> c \<in> set ''ABCDEFGHabcdefgh''"
proof -
  from assms have dr: "dropWhile is_digit s = [c]"
    and ds: "ds = takeWhile is_digit s" and ne: "ds \<noteq> []" and l: "is_A_to_H_ci c"
    by (auto simp: match_preset_def split: list.splits if_splits)
  have "s = takeWhile is_digit s @ dropWhile is_digit s" by simp
  then have "s = ds @ [c]" using dr ds by simp
  moreover have "set ds \<subseteq> set ''0123456789''"
  proof
    fix x assume "x \<in> set ds"
    then have "is_digit x" unfolding ds by (rule set_takeWhileD [THEN conjunct2])
    then show "x \<in> set ''0123456789''" by (simp add: is_digit_def)
  qed
  ultimately show ?thesis using ne l by (simp add: is_A_to_H_ci_def)
qed

lemma letter_offset:
  assumes "k < 8" and "c = ''ABCDEFGH'' ! k \<or> c = ''abcdefgh'' ! k"
  shows "int (of_char (toUpperCase c)) - 65 = int k \<and> c \<in> set ''ABCDEFGHabcdefgh''"
proof -
  from assms(1) have "k = 0 \<or> k = 1 \<or> k = 2 \<or> k = 3 \<or> k = 4 \<or> k = 5 \<or> k = 6 \<or> k = 7"
    by arith
  then show ?thesis
    using assms(2) by (elim disjE) (auto simp: toUpperCase_def)
qed

text \<open>
  C2. A preset identifier that consists of one or more decimal digits \<open>ds\<close> followed by
  one letter \<open>c\<close>, the \<open>k\<close>-th of A..H (counted from zero, in either case), with the bank
  \<open>parseInt ds\<close> between 1 and 32, makes the encoder emit exactly three messages on the
  given channel, in this order: control change 0 with value 0, control change 32 with the
  setlist as value, and a program change with number \<open>(bank - 1) * 8 + k\<close>, which lies in
  \<open>[0, 255]\<close>.
\<close>

theorem preset_encoder_three_messages:
  assumes "set ds \<subseteq> set ''0123456789''" and "ds \<noteq> []"
    and "k < 8" and "c = ''ABCDEFGH'' ! k \<or> c = ''abcdefgh'' ! k"
    and "1 \<le> parseInt ds" and "parseInt ds \<le> 32"
  shows "sendQuadCortexPreset env (ds @ [c]) chan sl =
           Inr [CC (Num (num_lit env 0)) (Num (num_lit env 0)) chan,
                CC (Num (num_lit env 32)) sl chan,
                Program (Num (num_lit env ((int (parseInt ds) - 1) * 8 + int k))) chan]
         \<and> 0 \<le> (int (parseInt ds) - 1) * 8 + int k
         \<and> (int (parseInt ds) - 1) * 8 + int k \<le> 255"
proof -
  from letter_offset [OF assms(3,4)]
  have off: "int (of_char (toUpperCase c)) - 65 = int k"
    and l: "c \<in> set ''ABCDEFGHabcdefgh''" by simp_all
  have m: "match_preset (ds @ [c]) = Some (ds, c)"
    by (rule match_preset_digits_letter [OF assms(1,2) l])
  have "sendQuadCortexPreset env (ds @ [c]) chan sl =
           Inr [CC (Num (num_lit env 0)) (Num (num_lit env 0)) chan,
                CC (Num (num_lit env 32)) sl chan,
                Program (Num (num_lit env
                  ((int (parseInt ds) - 1) * 8 + (int (of_char (toUpperCase c)) - 65)))) chan]"
    using assms(5,6) by (simp add: sendQuadCortexPreset_def m Let_def)
  then have "sendQuadCortexPreset env (ds @ [c]) chan sl =
           Inr [CC (Num (num_lit env 0)) (Num (num_lit env 0)) chan,
                CC (Num (num_lit env 32)) sl chan,
                Program (Num (num_lit env ((int (parseInt ds) - 1) * 8 + int k))) chan]"
    by (simp only: off)
  moreover have "0 \<le> (int (parseInt ds) - 1) * 8 + int k"
    using assms(5) by simp
  moreover have "(int (parseInt ds) - 1) * 8 + int k \<le> 255"
    using assms(3,6) by simp
  ultimately show ?thesis by simp
qed

text \<open>
  The table of the specification: "1A" gives program 0, "1H" gives 7, "2A" gives 8 and
  "32H" gives 255; a lower-case letter and leading zeros are accepted ("012d" is bank 12,
  letter D, program 91).
\<close>

theorem preset_encoder_three_messages_witness:
  "sendQuadCortexPreset js_sample ''1A'' (Num 1) (Num 5) =
     Inr [CC (Num 0) (Num 0) (Num 1), CC (Num 32) (Num 5) (Num 1), Program (Num 0) (Num 1)]
   \<and> sendQuadCortexPreset js_sample ''1H'' (Num 1) (Num 5) =
     Inr [CC (Num 0) (Num 0) (Num 1), CC (Num 32) (Num 5) (Num 1), Program (Num 7) (Num 1)]
   \<and> sendQuadCortexPreset js_sample ''2A'' (Num 1) (Num 5) =
     Inr [CC (Num 0) (Num 0) (Num 1), CC (Num 32) (Num 5) (Num 1), Program (Num 8) (Num 1)]
   \<and> parseInt ''32'' = 32
   \<and> sendQuadCortexPreset js_sample ''32H'' (Num 1) (Num 5) =
     Inr [CC (Num 0) (Num 0) (Num 1), CC (Num 32) (Num 5) (Num 1), Program (Num 255) (Num 1)]
   \<and> sendQuadCortexPreset js_sample ''012d'' (Num 1) (Str ''x'') =
     Inr [CC (Num 0) (Num 0) (Num 1), CC (Num 32) (Str ''x'') (Num 1), Program (Num 91) (Num 1)]"
proof -
  have a: "sendQuadCortexPreset js_sample ''1A'' (Num 1) (Num 5) =
     Inr [CC (Num 0) (Num 0) (Num 1), CC (Num 32) (Num 5) (Num 1), Program (Num 0) (Num 1)]"
    using preset_encoder_three_messages [where ds = "''1''" and k = 0 and c = "CHR ''A''"
        and env = js_sample and chan = "Num 1" and sl = "Num 5"]
    by (simp add: parseInt_def digit_value_def js_sample_def)
  have b: "sendQuadCortexPreset js_sample ''1H'' (Num 1) (Num 5) =
     Inr [CC (Num 0) (Num 0) (Num 1), CC (Num 32) (Num 5) (Num 1), Program (Num 7) (Num 1)]"
    using preset_encoder_three_messages [where ds = "''1''" and k = 7 and c = "CHR ''H''"
        and env = js_sample and chan = "Num 1" and sl = "Num 5"]
    by (simp add: parseInt_def digit_value_def js_sample_def)
  have c: "sendQuadCortexPreset js_sample ''2A'' (Num 1) (Num 5) =
     Inr [CC (Num 0) (Num 0) (Num 1), CC (Num 32) (Num 5) (Num 1), Program (Num 8) (Num 1)]"
    using preset_encoder_three_messages [where ds = "''2''" and k = 0 and c = "CHR ''A''"
        and env = js_sample and chan = "Num 1" and sl = "Num 5"]
    by (simp add: parseInt_def digit_value_def js_sample_def)
  have p: "parseInt ''32'' = 32"
    by (simp add: parseInt_def digit_value_def)
  have d: "sendQuadCortexPreset js_sample ''32H'' (Num 1) (Num 5) =
     Inr [CC (Num 0) (Num 0) (Num 1), CC (Num 32) (Num 5) (Num 1), Program (Num 255) (Num 1)]"
    using preset_encoder_three_messages [where ds = "''32''" and k = 7 and c = "CHR ''H''"
        and env = js_sample and chan = "Num 1" and sl = "Num 5"]
    by (simp add: p js_sample_def)
  have e: "sendQuadCortexPreset js_sample ''012d'' (Num 1) (Str ''x'') =
     Inr [CC (Num 0) (Num 0) (Num 1), CC (Num 32) (Str ''x'') (Num 1), Program (Num 91) (Num 1)]"
    using preset_encoder_three_messages [where ds = "''012''" and k = 3 and c = "CHR ''d''"
        and env = js_sample and chan = "Num 1" and sl = "Str ''x''"]
    by (simp add: parseInt_def digit_value_def js_sample_def)
  show ?thesis using a b c p d e by simp
qed

text \<open>
  C3. A preset identifier that is not of the shape "one or more decimal digits, then one
  letter of A..H in either case", or that has this shape with a bank below 1 or above 32,
  makes the encoder fail with an error; no MIDI message is emitted.
\<close>

theorem preset_encoder_rejects:
  assumes "(\<nexists>ds c. presetId = ds @ [c] \<and> ds \<noteq> [] \<and> set ds \<subseteq> set ''0123456789''
              \<and> c \<in> set ''ABCDEFGHabcdefgh'')
         \<or> (\<exists>ds c. presetId = ds @ [c] \<and> ds \<noteq> [] \<and> set ds \<subseteq> set ''0123456789''
              \<and> c \<in> set ''ABCDEFGHabcdefgh'' \<and> (parseInt ds < 1 \<or> 32 < parseInt ds))"
  shows "(\<exists>e. sendQuadCortexPreset env presetId chan sl = Inl e)
         \<and> emitted (sendQuadCortexPreset env presetId chan sl) = []"
proof -
  have "\<exists>e. sendQuadCortexPreset env presetId chan sl = Inl e"
    using assms
  proof
    assume no: "\<nexists>ds c. presetId = ds @ [c] \<and> ds \<noteq> [] \<and> set ds \<subseteq> set ''0123456789''
              \<and> c \<in> set ''ABCDEFGHabcdefgh''"
    have "match_preset presetId = None"
    proof (cases "match_preset presetId")
      case None then show ?thesis .
    next
      case (Some p)
      obtain ds c where "p = (ds, c)" by (cases p)
      with Some match_preset_SomeD [of presetId ds c] no show ?thesis by blast
    qed
    then show ?thesis by (simp add: sendQuadCortexPreset_def)
  next
    assume "\<exists>ds c. presetId = ds @ [c] \<and> ds \<noteq> [] \<and> set ds \<subseteq> set ''0123456789''
              \<and> c \<in> set ''ABCDEFGHabcdefgh'' \<and> (parseInt ds < 1 \<or> 32 < parseInt ds)"
    then obtain ds c where p: "presetId = ds @ [c]" "ds \<noteq> []" "set ds \<subseteq> set ''0123456789''"
      "c \<in> set ''ABCDEFGHabcdefgh''" and r: "parseInt ds < 1 \<or> 32 < parseInt ds" by blast
    have "match_preset presetId = Some (ds, c)"
      unfolding p(1) by (rule match_preset_digits_letter [OF p(3,2,4)])
    then show ?thesis using r by (auto simp: sendQuadCortexPreset_def Let_def)
  qed
  then show ?thesis by (auto simp: emitted_def)
qed

text \<open>
  The rejected identifiers of the specification: "abc" and "1I" have the wrong shape,
  "0A" and "33A" have a bank out of range.
\<close>

theorem preset_encoder_rejects_witness:
  "sendQuadCortexPreset js_sample ''abc'' (Num 1) (Num 5) = Inl (InvalidFormat ''abc'')
   \<and> emitted (sendQuadCortexPreset js_sample ''abc'' (Num 1) (Num 5)) = []
   \<and> sendQuadCortexPreset js_sample ''1I'' (Num 1) (Num 5) = Inl (InvalidFormat ''1I'')
   \<and> emitted (sendQuadCortexPreset js_sample ''1I'' (Num 1) (Num 5)) = []
   \<and> sendQuadCortexPreset js_sample ''0A'' (Num 1) (Num 5) = Inl (InvalidBank 0)
   \<and> emitted (sendQuadCortexPreset js_sample ''0A'' (Num 1) (Num 5)) = []
   \<and> sendQuadCortexPreset js_sample ''33A'' (Num 1) (Num 5) = Inl (InvalidBank 33)
   \<and> emitted (sendQuadCortexPreset js_sample ''33A'' (Num 1) (Num 5)) = []"
proof -
  have h1: "\<nexists>ds c. ''abc'' = ds @ [c] \<and> ds \<noteq> [] \<and> set ds \<subseteq> set ''0123456789''
              \<and> c \<in> set ''ABCDEFGHabcdefgh''"
    by (auto simp: Cons_eq_append_conv)
  have a: "sendQuadCortexPreset js_sample ''abc'' (Num 1) (Num 5) = Inl (InvalidFormat ''abc'')
     \<and> emitted (sendQuadCortexPreset js_sample ''abc'' (Num 1) (Num 5)) = []"
    using preset_encoder_rejects [of "''abc''" js_sample "Num 1" "Num 5"] h1
    by (auto simp: sendQuadCortexPreset_def match_preset_def is_digit_def)
  have h2: "\<nexists>ds c. ''1I'' = ds @ [c] \<and> ds \<noteq> [] \<and> set ds \<subseteq> set ''0123456789''
              \<and> c \<in> set ''ABCDEFGHabcdefgh''"
    by (auto simp: Cons_eq_append_conv)
  have b: "sendQuadCortexPreset js_sample ''1I'' (Num 1) (Num 5) = Inl (InvalidFormat ''1I'')
     \<and> emitted (sendQuadCortexPreset js_sample ''1I'' (Num 1) (Num 5)) = []"
    using preset_encoder_rejects [of "''1I''" js_sample "Num 1" "Num 5"] h2
    by (auto simp: sendQuadCortexPreset_def match_preset_def is_digit_def is_A_to_H_ci_def)
  have p0: "parseInt ''0'' = 0" and p33: "parseInt ''33'' = 33"
    by (simp_all add: parseInt_def digit_value_def)
  have h3: "\<exists>ds c. ''0A'' = ds @ [c] \<and> ds \<noteq> [] \<and> set ds \<subseteq> set ''0123456789''
              \<and> c \<in> set ''ABCDEFGHabcdefgh'' \<and> (parseInt ds < 1 \<or> 32 < parseInt ds)"
    by (rule exI [of _ "''0''"], rule exI [of _ "CHR ''A''"]) (simp add: p0)
  have c: "sendQuadCortexPreset js_sample ''0A'' (Num 1) (Num 5) = Inl (InvalidBank 0)
     \<and> emitted (sendQuadCortexPreset js_sample ''0A'' (Num 1) (Num 5)) = []"
    using preset_encoder_rejects [of "''0A''" js_sample "Num 1" "Num 5"] h3 p0
    by (auto simp: sendQuadCortexPreset_def match_preset_def is_digit_def is_A_to_H_ci_def Let_def
          js_sample_def)
  have h4: "\<exists>ds c. ''33A'' = ds @ [c] \<and> ds \<noteq> [] \<and> set ds \<subseteq> set ''0123456789''
              \<and> c \<in> set ''ABCDEFGHabcdefgh'' \<and> (parseInt ds < 1 \<or> 32 < parseInt ds)"
    by (rule exI [of _ "''33''"], rule exI [of _ "CHR ''A''"]) (simp add: p33)
  have d: "sendQuadCortexPreset js_sample ''33A'' (Num 1) (Num 5) = Inl (InvalidBank 33)
     \<and> emitted (sendQuadCortexPreset js_sample ''33A'' (Num 1) (Num 5)) = []"
    using preset_encoder_rejects [of "''33A''" js_sample "Num 1" "Num 5"] h4 p33
    by (auto simp: sendQuadCortexPreset_def match_preset_def is_digit_def is_A_to_H_ci_def Let_def
          js_sample_def)
  show ?thesis using a b c d by blast
qed

section \<open>The sample table, evaluated\<close>

lemma sample_number_facts:
  "Number_of js_sample ''0'' = Some 0" "Number_of js_sample ''1'' = Some 1"
  "Number_of js_sample ''5'' = Some 5" "Number_of js_sample ''7'' = Some 7"
  "Number_of js_sample ''64'' = Some 64" "Number_of js_sample ''100'' = Some 100"
  "Number_of js_sample ''/a'' = None" "Number_of js_sample ''/zero'' = None"
  "Number_of js_sample ''/five'' = None" "Number_of js_sample ''/foo'' = None"
  "Number_of js_sample ''/bar'' = None" "Number_of js_sample ''pc'' = None"
  "Number_of js_sample ''cc'' = None" "Number_of js_sample ''qc_preset'' = None"
  "Number_of js_sample ''/q'' = None" "Number_of js_sample ''/q7'' = None"
  "Number_of js_sample ''/out'' = None" "Number_of js_sample ''1.5 on'' = None"
  "Number_of js_sample ''2A'' = None" "Number_of js_sample ''/cc'' = None"
  "Number_of js_sample ''/setlist'' = None" "Number_of js_sample ''/never'' = None"
  "Number_of js_sample ''/n'' = None" "Number_of js_sample ''/b'' = None"
  "Number_of js_sample ''/fwd'' = None" "Number_of js_sample '' '' = Some 0"
  by (simp_all add: js_sample_def sample_numbers_def)

lemma rule_zero_eq:
  "rule_zero = \<lparr> osc_in_address = Str ''/a'', osc_in_args = Num 0,
       osc_out_address = Str ''/zero'', osc_out_args = Undefined, midi_channel = Undefined,
       midi_type = Undefined, midi_note = Undefined, midi_velocity = Undefined,
       midi_controller = Undefined, midi_value = Undefined, qc_preset_id = Undefined,
       setlist = Undefined \<rparr>"
  by (simp add: rule_zero_def row_to_mapping_def loaded_field_def convert_cell_def sample_number_facts)

lemma rule_five_eq:
  "rule_five = \<lparr> osc_in_address = Str ''/a'', osc_in_args = Num 5,
       osc_out_address = Str ''/five'', osc_out_args = Undefined, midi_channel = Undefined,
       midi_type = Undefined, midi_note = Undefined, midi_velocity = Undefined,
       midi_controller = Undefined, midi_value = Undefined, qc_preset_id = Undefined,
       setlist = Undefined \<rparr>"
  by (simp add: rule_five_def row_to_mapping_def loaded_field_def convert_cell_def sample_number_facts)

lemma rule_foo_eq:
  "rule_foo = \<lparr> osc_in_address = Str ''/foo'', osc_in_args = Undefined,
       osc_out_address = Str ''/bar'', osc_out_args = Undefined, midi_channel = Num 1,
       midi_type = Str ''pc'', midi_note = Undefined, midi_velocity = Undefined,
       midi_controller = Undefined, midi_value = Undefined, qc_preset_id = Undefined,
       setlist = Undefined \<rparr>"
  by (simp add: rule_foo_def row_to_mapping_def loaded_field_def convert_cell_def sample_number_facts)

lemma rule_q_eq:
  "rule_q = \<lparr> osc_in_address = Str ''/q'', osc_in_args = Undefined,
       osc_out_address = Str ''/out'', osc_out_args = Str ''1.5 on'', midi_channel = Num 1,
       midi_type = Str ''qc_preset'', midi_note = Undefined, midi_velocity = Undefined,
       midi_controller = Undefined, midi_value = Undefined, qc_preset_id = Str ''2A'',
       setlist = Undefined \<rparr>"
  by (simp add: rule_q_def row_to_mapping_def loaded_field_def convert_cell_def sample_number_facts)

lemma rule_q7_eq:
  "rule_q7 = \<lparr> osc_in_address = Str ''/q7'', osc_in_args = Undefined,
       osc_out_address = Undefined, osc_out_args = Undefined, midi_channel = Num 1,
       midi_type = Str ''qc_preset'', midi_note = Undefined, midi_velocity = Undefined,
       midi_controller = Undefined, midi_value = Undefined, qc_preset_id = Str ''2A'',
       setlist = Num 7 \<rparr>"
  by (simp add: rule_q7_def row_to_mapping_def loaded_field_def convert_cell_def sample_number_facts)

lemma rule_cc_eq:
  "rule_cc = \<lparr> osc_in_address = Str ''/cc'', osc_in_args = Undefined,
       osc_out_address = Undefined, osc_out_args = Undefined, midi_channel = Num 1,
       midi_type = Str ''cc'', midi_note = Undefined, midi_velocity = Undefined,
       midi_controller = Num 64, midi_value = Num 100, qc_preset_id = Undefined,
       setlist = Undefined \<rparr>"
  by (simp add: rule_cc_def row_to_mapping_def loaded_field_def convert_cell_def sample_number_facts)

lemma rule_setlist_eq:
  "rule_setlist = \<lparr> osc_in_address = Str ''/setlist'', osc_in_args = Undefined,
       osc_out_address = Str ''/never'', osc_out_args = Undefined, midi_channel = Num 1,
       midi_type = Str ''pc'', midi_note = Undefined, midi_velocity = Undefined,
       midi_controller = Undefined, midi_value = Undefined, qc_preset_id = Undefined,
       setlist = Undefined \<rparr>"
  by (simp add: rule_setlist_def row_to_mapping_def loaded_field_def convert_cell_def sample_number_facts)

lemma rule_numeric_preset_eq:
  "rule_numeric_preset = \<lparr> osc_in_address = Str ''/n'', osc_in_args = Undefined,
       osc_out_address = Undefined, osc_out_args = Undefined, midi_channel = Num 1,
       midi_type = Str ''qc_preset'', midi_note = Undefined, midi_velocity = Undefined,
       midi_controller = Undefined, midi_value = Undefined, qc_preset_id = Num 5,
       setlist = Undefined \<rparr>"
  by (simp add: rule_numeric_preset_def row_to_mapping_def loaded_field_def convert_cell_def
        sample_number_facts)

lemma rule_blank_cell_eq:
  "rule_blank_cell = \<lparr> osc_in_address = Str ''/b'', osc_in_args = Undefined,
       osc_out_address = Str ''/fwd'', osc_out_args = Num 0, midi_channel = Undefined,
       midi_type = Undefined, midi_note = Undefined, midi_velocity = Undefined,
       midi_controller = Undefined, midi_value = Undefined, qc_preset_id = Undefined,
       setlist = Undefined \<rparr>"
  by (simp add: rule_blank_cell_def row_to_mapping_def loaded_field_def convert_cell_def
        sample_number_facts)

lemmas sample_rules =
  rule_zero_eq rule_five_eq rule_foo_eq rule_q_eq rule_q7_eq rule_cc_eq rule_setlist_eq

lemma sample_builtins:
  "num_String js_sample 0 = ''0''" "num_String js_sample 5 = ''5''"
  "num_falsy js_sample 0" "\<not> num_falsy js_sample 5" "\<not> num_falsy js_sample 1"
  "parseFloat js_sample ''1.5'' = Some (3 / 2)" "parseFloat js_sample ''on'' = None"
  "num_lit js_sample 0 = 0" "parseFloat js_sample ''0'' = Some 0"
  by (simp_all add: js_sample_def sample_numbers_def)

lemma find_sample:
  "find_mapping js_sample (mappings sample_session) ''/a'' [Num 5] = Some rule_zero"
  "find_mapping js_sample (mappings sample_session) ''/a'' [] = Some rule_zero"
  "find_mapping js_sample (mappings sample_session) ''/foo'' args = Some rule_foo"
  "find_mapping js_sample (mappings sample_session) ''/q'' args = Some rule_q"
  "find_mapping js_sample (mappings sample_session) ''/q7'' args = Some rule_q7"
  "find_mapping js_sample (mappings sample_session) ''/cc'' args = Some rule_cc"
  "find_mapping js_sample (mappings sample_session) ''/setlist'' args = Some rule_setlist"
  by (simp_all add: find_mapping_def sample_session_def rule_matches_def truthy_def
        sample_builtins sample_rules)

lemma normalize_sample:
  "normalizeAddress ''/foo/'' = ''/foo''" "normalizeAddress ''/foo'' = ''/foo''"
  "normalizeAddress ''/Foo//'' = ''/Foo/''" "normalizeAddress ''/setlist/'' = ''/setlist''"
  "normalizeAddress ''/setlist'' = ''/setlist''" "normalizeAddress ''/q'' = ''/q''"
  "normalizeAddress ''/q7'' = ''/q7''" "normalizeAddress ''/cc'' = ''/cc''"
  "normalizeAddress ''/a'' = ''/a''"
  by (simp_all add: normalizeAddress_def)

lemma sample_main:
  "main js_sample (Rows []) [''dev''] ''dev'' [''dev''] =
     Running \<lparr> mappings = [], currentSetlist = 0 \<rparr> (Some ''dev'')"
  by (simp add: main_def loadMappings_def init_midi_def sample_builtins)

section \<open>Properties of the message handler\<close>

lemma every_index_eq:
  assumes "length xs = length ys"
  shows "list_all (\<lambda>i. xs ! i = ys ! i) [0..<length xs] = (xs = ys)"
proof -
  have "list_all (\<lambda>i. xs ! i = ys ! i) [0..<length xs] = (\<forall>i<length xs. xs ! i = ys ! i)"
    by (simp add: list_all_iff Ball_def)
  also have "\<dots> = (xs = ys)"
    using assms by (simp add: list_eq_iff_nth_eq)
  finally show ?thesis .
qed

lemma normalizeAddress_snoc: "normalizeAddress (a @ ''/'') = a"
  by (simp add: normalizeAddress_def)

lemma normalizeAddress_id: "a = [] \<or> last a \<noteq> CHR ''/'' \<Longrightarrow> normalizeAddress a = a"
  by (auto simp: normalizeAddress_def)

lemma handle_resolved:
  assumes "normalizeAddress address \<noteq> ''/setlist''"
    and "find_mapping env (mappings st) (normalizeAddress address) args = Some m"
  shows "handleOscMessage env st (address, args) midiOut =
     (st, \<lparr> osc_sent = osc_leg env m args,
            midi_sent = (case midi_leg env (currentSetlist st) m args midiOut of
                           Inl e \<Rightarrow> [] | Inr ms \<Rightarrow> ms),
            thrown = (case midi_leg env (currentSetlist st) m args midiOut of
                        Inl e \<Rightarrow> Some e | Inr ms \<Rightarrow> None) \<rparr>)"
  using assms by (simp add: handleOscMessage_def)

lemma handle_currentSetlist_unchanged:
  assumes "\<not> (normalizeAddress (fst msg) = ''/setlist'' \<and> (\<exists>x rest. snd msg = Num x # rest))"
  shows "currentSetlist (fst (handleOscMessage env st msg midiOut)) = currentSetlist st"
  using assms
  by (auto simp: handleOscMessage_def Let_def first_arg_def split: list.splits jsval.splits option.splits)

lemma handle_mappings_unchanged:
  "mappings (fst (handleOscMessage env st msg midiOut)) = mappings st"
  by (auto simp: handleOscMessage_def Let_def split: jsval.splits option.splits)

lemma handle_all_mappings_unchanged:
  "mappings (handle_all env st msgs midiOut) = mappings st"
  by (induction msgs arbitrary: st) (simp_all add: handle_mappings_unchanged)

lemma handle_all_currentSetlist_unchanged:
  assumes "\<forall>msg \<in> set msgs.
             \<not> (normalizeAddress (fst msg) = ''/setlist'' \<and> (\<exists>x rest. snd msg = Num x # rest))"
  shows "currentSetlist (handle_all env st msgs midiOut) = currentSetlist st"
  using assms
proof (induction msgs arbitrary: st)
  case Nil
  then show ?case by simp
next
  case (Cons msg msgs)
  have "currentSetlist (fst (handleOscMessage env st msg midiOut)) = currentSetlist st"
    using Cons.prems by (intro handle_currentSetlist_unchanged) simp
  moreover have "currentSetlist (handle_all env (fst (handleOscMessage env st msg midiOut)) msgs midiOut)
      = currentSetlist (fst (handleOscMessage env st msg midiOut))"
    using Cons.prems by (intro Cons.IH) simp
  ultimately show ?case by simp
qed

text \<open>
  C1. The resolver is meant to return the first rule, in table order, whose address equals
  the normalized address and whose \<open>osc_in_args\<close> is absent or blank or equals, token by
  token, the string forms of the received arguments. The callback tests the field by
  truthiness (\<^verbatim>\<open>if (m.osc_in_args)\<close>), and the loader stores the cell \<^verbatim>\<open>0\<close> as
  the number zero, which is falsy: a rule whose \<open>osc_in_args\<close> is \<^verbatim>\<open>0\<close> matches every
  argument list. Here the table holds the rows \<^verbatim>\<open>/a,0,/zero\<close> and \<^verbatim>\<open>/a,5,/five\<close>,
  and the message \<^verbatim>\<open>/a 5\<close> arrives: the expected tokens of the first row are
  \<open>[''0'']\<close>, the received ones \<open>[''5'']\<close>, the second row matches exactly, and yet the
  first row is the one resolved and its output address the one written to.
\<close>

theorem resolver_numeric_zero_in_args_matches_everything:
  "convert_cell js_sample ''0'' = Num 0
   \<and> osc_in_args rule_zero = Num 0
   \<and> split_space (js_String js_sample (osc_in_args rule_zero)) = [''0'']
   \<and> map (js_String js_sample) [Num 5] = [''5'']
   \<and> rule_matches js_sample ''/a'' [Num 5] rule_zero
   \<and> rule_matches js_sample ''/a'' [] rule_zero
   \<and> rule_matches js_sample ''/a'' [Num 5] rule_five
   \<and> find_mapping js_sample [rule_zero, rule_five] ''/a'' [Num 5] = Some rule_zero
   \<and> osc_sent (snd (handleOscMessage js_sample sample_session (''/a'', [Num 5]) None)) =
       [Message (Str ''/zero'') [FloatArg 5]]"
proof -
  have "convert_cell js_sample ''0'' = Num 0"
    by (simp add: convert_cell_def js_sample_def sample_numbers_def)
  moreover have "osc_in_args rule_zero = Num 0"
    by (simp add: rule_zero_eq)
  moreover have "split_space (js_String js_sample (osc_in_args rule_zero)) = [''0'']"
    by (simp add: rule_zero_eq js_String_def sample_builtins)
  moreover have "map (js_String js_sample) [Num 5] = [''5'']"
    by (simp add: js_String_def sample_builtins)
  moreover have "rule_matches js_sample ''/a'' [Num 5] rule_zero"
    by (simp add: rule_matches_def truthy_def rule_zero_eq sample_builtins)
  moreover have "rule_matches js_sample ''/a'' [] rule_zero"
    by (simp add: rule_matches_def truthy_def rule_zero_eq sample_builtins)
  moreover have "rule_matches js_sample ''/a'' [Num 5] rule_five"
    by (simp add: rule_matches_def truthy_def rule_five_eq sample_builtins js_String_def)
  moreover have "find_mapping js_sample [rule_zero, rule_five] ''/a'' [Num 5] = Some rule_zero"
    by (simp add: find_mapping_def rule_matches_def truthy_def rule_zero_eq sample_builtins)
  moreover have "osc_sent (snd (handleOscMessage js_sample sample_session (''/a'', [Num 5]) None)) =
       [Message (Str ''/zero'') [FloatArg 5]]"
  proof -
    have "handleOscMessage js_sample sample_session (''/a'', [Num 5]) None =
      (sample_session, \<lparr> osc_sent = osc_leg js_sample rule_zero [Num 5],
            midi_sent = (case midi_leg js_sample (currentSetlist sample_session) rule_zero [Num 5] None of
                           Inl e \<Rightarrow> [] | Inr ms \<Rightarrow> ms),
            thrown = (case midi_leg js_sample (currentSetlist sample_session) rule_zero [Num 5] None of
                        Inl e \<Rightarrow> Some e | Inr ms \<Rightarrow> None) \<rparr>)"
      by (rule handle_resolved) (simp_all add: normalize_sample find_sample)
    then show ?thesis
      by (simp add: osc_leg_def finalArgs_def truthy_def rule_zero_eq)
  qed
  ultimately show ?thesis by blast
qed

text \<open>
  What does hold of the resolver. It returns the first rule, in table order, that the
  callback accepts, and none exactly when the callback accepts no rule.
\<close>

theorem resolver_returns_first_match:
  "(find_mapping env table a args = Some m \<longleftrightarrow>
      (\<exists>i<length table. table ! i = m \<and> rule_matches env a args m
          \<and> (\<forall>j<i. \<not> rule_matches env a args (table ! j))))
   \<and> (find_mapping env table a args = None \<longleftrightarrow>
      (\<forall>r \<in> set table. \<not> rule_matches env a args r))"
proof -
  have "find_mapping env table a args = Some m \<longleftrightarrow>
      (\<exists>i<length table. table ! i = m \<and> rule_matches env a args m
          \<and> (\<forall>j<i. \<not> rule_matches env a args (table ! j)))"
    unfolding find_mapping_def find_Some_iff by blast
  moreover have "find_mapping env table a args = None \<longleftrightarrow>
      (\<forall>r \<in> set table. \<not> rule_matches env a args r)"
    unfolding find_mapping_def find_None_iff by blast
  ultimately show ?thesis by blast
qed

text \<open>In the sample table the rule for \<^verbatim>\<open>/foo\<close> is the third; the two before it are rejected.\<close>

theorem resolver_returns_first_match_witness:
  "find_mapping js_sample (mappings sample_session) ''/foo'' [] = Some rule_foo
   \<and> mappings sample_session ! 2 = rule_foo
   \<and> rule_matches js_sample ''/foo'' [] rule_foo
   \<and> \<not> rule_matches js_sample ''/foo'' [] (mappings sample_session ! 0)
   \<and> \<not> rule_matches js_sample ''/foo'' [] (mappings sample_session ! 1)"
proof -
  from resolver_returns_first_match [of js_sample "mappings sample_session" "''/foo''" "[]" rule_foo]
  obtain i where i: "mappings sample_session ! i = rule_foo" "rule_matches js_sample ''/foo'' [] rule_foo"
    "\<forall>j<i. \<not> rule_matches js_sample ''/foo'' [] (mappings sample_session ! j)"
    using find_sample(3) [of "[]"] by blast
  have "i = 2"
  proof (rule ccontr)
    assume "i \<noteq> 2"
    have "rule_matches js_sample ''/foo'' [] (mappings sample_session ! 2)"
      using i(2) by (simp add: sample_session_def)
    with i(3) have "\<not> 2 < i" by blast
    then have "i = 0 \<or> i = 1" using \<open>i \<noteq> 2\<close> by arith
    then show False using i(1)
      by (auto simp: sample_session_def sample_rules)
  qed
  have z: "(0::nat) < 2" and o: "(1::nat) < 2" by simp_all
  have "\<not> rule_matches js_sample ''/foo'' [] (mappings sample_session ! 0)"
    and "\<not> rule_matches js_sample ''/foo'' [] (mappings sample_session ! 1)"
    using i(3) z o unfolding \<open>i = 2\<close> by blast+
  moreover have "mappings sample_session ! 2 = rule_foo"
    by (simp add: sample_session_def)
  ultimately show ?thesis using i(2) find_sample(3) [of "[]"] by blast
qed

text \<open>
  On every rule whose \<open>osc_in_args\<close> is not a falsy number, the callback decides as
  specified: the addresses are equal, and the field is absent, or empty, or its tokens are
  the string forms of the received arguments (same count, same order).
\<close>

theorem rule_matches_as_specified:
  assumes "\<nexists>n. osc_in_args m = Num n \<and> num_falsy env n"
  shows "rule_matches env a args m \<longleftrightarrow>
           osc_in_address m = Str a
           \<and> (osc_in_args m = Undefined \<or> osc_in_args m = Str []
               \<or> split_space (js_String env (osc_in_args m)) = map (js_String env) args)"
proof (cases "truthy env (osc_in_args m)")
  case True
  then have "osc_in_args m \<noteq> Undefined" "osc_in_args m \<noteq> Str []"
    by (auto simp: truthy_def)
  then show ?thesis
    using True every_index_eq [of "split_space (js_String env (osc_in_args m))" "map (js_String env) args"]
    by (auto simp: rule_matches_def Let_def)
next
  case False
  then have "osc_in_args m = Undefined \<or> osc_in_args m = Str []"
    using assms by (cases "osc_in_args m") (auto simp: truthy_def)
  then show ?thesis
    using False by (auto simp: rule_matches_def)
qed

text \<open>
  The rule \<^verbatim>\<open>/a,5\<close> accepts \<^verbatim>\<open>/a 5\<close> and rejects another value, another count and
  another address; the rule \<^verbatim>\<open>/foo\<close> without arguments accepts any argument list.
\<close>

theorem rule_matches_as_specified_witness:
  "rule_matches js_sample ''/a'' [Num 5] rule_five
   \<and> \<not> rule_matches js_sample ''/a'' [Num 0] rule_five
   \<and> \<not> rule_matches js_sample ''/a'' [] rule_five
   \<and> \<not> rule_matches js_sample ''/a'' [Num 5, Num 5] rule_five
   \<and> \<not> rule_matches js_sample ''/b'' [Num 5] rule_five
   \<and> rule_matches js_sample ''/foo'' [Num 5, Str ''x''] rule_foo"
proof -
  have five: "\<nexists>n. osc_in_args rule_five = Num n \<and> num_falsy js_sample n"
    by (simp add: rule_five_eq sample_builtins)
  have foo: "\<nexists>n. osc_in_args rule_foo = Num n \<and> num_falsy js_sample n"
    by (simp add: rule_foo_eq)
  have s: "split_space ''5'' = [''5'']" by simp
  show ?thesis
    using rule_matches_as_specified [OF five, of "''/a''" "[Num 5]"]
      rule_matches_as_specified [OF five, of "''/a''" "[Num 0]"]
      rule_matches_as_specified [OF five, of "''/a''" "[]"]
      rule_matches_as_specified [OF five, of "''/a''" "[Num 5, Num 5]"]
      rule_matches_as_specified [OF five, of "''/b''" "[Num 5]"]
      rule_matches_as_specified [OF foo, of "''/foo''" "[Num 5, Str ''x'']"]
    by (simp add: rule_five_eq rule_foo_eq js_String_def sample_builtins)
qed

text \<open>
  C4. Normalization removes exactly one trailing slash and changes nothing else: an address
  \<open>a\<close> followed by a slash becomes \<open>a\<close> (so \<^verbatim>\<open>/Foo//\<close> becomes \<^verbatim>\<open>/Foo/\<close>, case and
  inner slashes kept), and an address that does not end in a slash is left as it is.
  Hence an address and the same address with a slash appended resolve to the same rule
  (or both to none) in every table and for every argument list, and the handler does the
  same on both; \<^verbatim>\<open>/foo\<close> and \<^verbatim>\<open>/foo/\<close> are the instance of the specification.
\<close>

theorem trailing_slash_normalization:
  "normalizeAddress (a @ ''/'') = a
   \<and> (a = [] \<or> last a \<noteq> CHR ''/'' \<longrightarrow> normalizeAddress a = a)
   \<and> (a = [] \<or> last a \<noteq> CHR ''/'' \<longrightarrow>
        find_mapping env table (normalizeAddress (a @ ''/'')) args =
          find_mapping env table (normalizeAddress a) args
        \<and> handleOscMessage env st (a @ ''/'', args) midiOut =
            handleOscMessage env st (a, args) midiOut)"
proof -
  have "handleOscMessage env st (a @ ''/'', args) midiOut = handleOscMessage env st (a, args) midiOut"
    if "a = [] \<or> last a \<noteq> CHR ''/''"
    unfolding handleOscMessage_def using normalizeAddress_id [OF that]
    by (simp add: normalizeAddress_snoc)
  then show ?thesis
    using normalizeAddress_id [of a] by (simp add: normalizeAddress_snoc)
qed

theorem trailing_slash_normalization_witness:
  "normalizeAddress ''/foo/'' = ''/foo'' \<and> normalizeAddress ''/foo'' = ''/foo''
   \<and> find_mapping js_sample (mappings sample_session) (normalizeAddress ''/foo/'') [Num 5] =
       find_mapping js_sample (mappings sample_session) (normalizeAddress ''/foo'') [Num 5]
   \<and> find_mapping js_sample (mappings sample_session) (normalizeAddress ''/foo'') [Num 5] = Some rule_foo
   \<and> handleOscMessage js_sample sample_session (''/foo/'', [Num 5]) (Some ''dev'') =
       handleOscMessage js_sample sample_session (''/foo'', [Num 5]) (Some ''dev'')"
  using trailing_slash_normalization [of "''/foo''" js_sample "mappings sample_session" "[Num 5]"
      sample_session "Some ''dev''"]
  by (simp add: normalize_sample find_sample)

text \<open>
  C5. A message whose normalized address is \<^verbatim>\<open>/setlist\<close> sets the current setlist to its
  first argument when that argument is a number, and leaves it unchanged otherwise, without
  an exception; in both cases the table is not consulted and left as it is, and no OSC or
  MIDI message is sent.
\<close>

theorem setlist_interception:
  assumes "normalizeAddress address = ''/setlist''"
  shows "(\<forall>x rest. args = Num x # rest \<longrightarrow>
            currentSetlist (fst (handleOscMessage env st (address, args) midiOut)) = x)
       \<and> ((\<nexists>x rest. args = Num x # rest) \<longrightarrow>
            currentSetlist (fst (handleOscMessage env st (address, args) midiOut)) = currentSetlist st)
       \<and> mappings (fst (handleOscMessage env st (address, args) midiOut)) = mappings st
       \<and> osc_sent (snd (handleOscMessage env st (address, args) midiOut)) = []
       \<and> midi_sent (snd (handleOscMessage env st (address, args) midiOut)) = []
       \<and> thrown (snd (handleOscMessage env st (address, args) midiOut)) = None"
  using assms
  by (auto simp: handleOscMessage_def first_arg_def no_effects_def split: list.splits jsval.splits)

text \<open>
  The sample table has a rule for the address \<^verbatim>\<open>/setlist\<close>, which the resolver would
  return; the handler never gets there.
\<close>

theorem setlist_interception_witness:
  "normalizeAddress ''/setlist/'' = ''/setlist''
   \<and> find_mapping js_sample (mappings sample_session) ''/setlist'' [Num 7, Str ''x''] = Some rule_setlist
   \<and> currentSetlist sample_session = 3
   \<and> currentSetlist (fst (handleOscMessage js_sample sample_session
         (''/setlist/'', [Num 7, Str ''x'']) (Some ''dev''))) = 7
   \<and> osc_sent (snd (handleOscMessage js_sample sample_session
         (''/setlist/'', [Num 7, Str ''x'']) (Some ''dev''))) = []
   \<and> midi_sent (snd (handleOscMessage js_sample sample_session
         (''/setlist/'', [Num 7, Str ''x'']) (Some ''dev''))) = []
   \<and> thrown (snd (handleOscMessage js_sample sample_session
         (''/setlist/'', [Num 7, Str ''x'']) (Some ''dev''))) = None
   \<and> currentSetlist (fst (handleOscMessage js_sample sample_session
         (''/setlist'', [Str ''x'', Num 7]) (Some ''dev''))) = 3
   \<and> thrown (snd (handleOscMessage js_sample sample_session
         (''/setlist'', [Str ''x'', Num 7]) (Some ''dev''))) = None
   \<and> currentSetlist (fst (handleOscMessage js_sample sample_session
         (''/setlist'', []) (Some ''dev''))) = 3"
proof -
  have c: "currentSetlist sample_session = 3"
    by (simp add: sample_session_def)
  have a: "currentSetlist (fst (handleOscMessage js_sample sample_session
         (''/setlist/'', [Num 7, Str ''x'']) (Some ''dev''))) = 7
   \<and> osc_sent (snd (handleOscMessage js_sample sample_session
         (''/setlist/'', [Num 7, Str ''x'']) (Some ''dev''))) = []
   \<and> midi_sent (snd (handleOscMessage js_sample sample_session
         (''/setlist/'', [Num 7, Str ''x'']) (Some ''dev''))) = []
   \<and> thrown (snd (handleOscMessage js_sample sample_session
         (''/setlist/'', [Num 7, Str ''x'']) (Some ''dev''))) = None"
    using setlist_interception [OF normalize_sample(4), of "[Num 7, Str ''x'']" js_sample
        sample_session "Some ''dev''"]
    by simp
  have b: "currentSetlist (fst (handleOscMessage js_sample sample_session
         (''/setlist'', [Str ''x'', Num 7]) (Some ''dev''))) = 3
   \<and> thrown (snd (handleOscMessage js_sample sample_session
         (''/setlist'', [Str ''x'', Num 7]) (Some ''dev''))) = None"
    using setlist_interception [OF normalize_sample(5), of "[Str ''x'', Num 7]" js_sample
        sample_session "Some ''dev''"] c
    by simp
  have d: "currentSetlist (fst (handleOscMessage js_sample sample_session
         (''/setlist'', []) (Some ''dev''))) = 3"
    using setlist_interception [OF normalize_sample(5), of "[]" js_sample
        sample_session "Some ''dev''"] c
    by simp
  show ?thesis
    using a b c d normalize_sample(4) find_sample(7) [of "[Num 7, Str ''x'']"] by blast
qed

text \<open>
  C6. When a rule of type \<^verbatim>\<open>qc_preset\<close> reaches the preset encoder (the rule is the
  resolved one, it has a channel and a preset identifier, and a device is open), the
  MIDI messages sent are those of the encoder called with the rule's own \<open>setlist\<close>
  when that field is defined, and with the current setlist otherwise. The current
  setlist is 0 at startup and stays 0 as long as no message updates it, that is, no
  message with normalized address \<^verbatim>\<open>/setlist\<close> and a numeric first argument arrives.
\<close>

theorem qc_preset_setlist_precedence:
  "(normalizeAddress address \<noteq> ''/setlist''
      \<and> find_mapping env (mappings st) (normalizeAddress address) args = Some m
      \<and> midi_type m = Str ''qc_preset'' \<and> midi_channel m \<noteq> Undefined
      \<and> qc_preset_id m = Str presetId \<and> presetId \<noteq> [] \<and> midiOut = Some device
    \<longrightarrow> (setlist m \<noteq> Undefined \<longrightarrow>
           midi_sent (snd (handleOscMessage env st (address, args) midiOut)) =
             emitted (sendQuadCortexPreset env presetId (midi_channel m) (setlist m)))
        \<and> (setlist m = Undefined \<longrightarrow>
           midi_sent (snd (handleOscMessage env st (address, args) midiOut)) =
             emitted (sendQuadCortexPreset env presetId (midi_channel m) (Num (currentSetlist st)))))
   \<and> (main env source openable name outputs = Running st0 midiOut
        \<and> (\<forall>msg \<in> set msgs.
              \<not> (normalizeAddress (fst msg) = ''/setlist'' \<and> (\<exists>x rest. snd msg = Num x # rest)))
      \<longrightarrow> currentSetlist st0 = num_lit env 0
          \<and> currentSetlist (handle_all env st0 msgs midiOut) = num_lit env 0)"
proof -
  have a: "midi_sent (snd (handleOscMessage env st (address, args) midiOut)) =
      emitted (sendQuadCortexPreset env presetId (midi_channel m)
        (if setlist m \<noteq> Undefined then setlist m else Num (currentSetlist st)))"
    if "normalizeAddress address \<noteq> ''/setlist''"
      and "find_mapping env (mappings st) (normalizeAddress address) args = Some m"
      and "midi_type m = Str ''qc_preset''" and "midi_channel m \<noteq> Undefined"
      and "qc_preset_id m = Str presetId" and "presetId \<noteq> []" and "midiOut = Some device"
    using that by (simp add: handle_resolved midi_leg_def truthy_def Let_def)
  have b: "currentSetlist st0 = num_lit env 0"
    if "main env source openable name outputs = Running st0 midiOut"
    using that by (auto simp: main_def split: promise.splits)
  show ?thesis
    using a b handle_all_currentSetlist_unchanged [of msgs env st0 midiOut] by auto
qed

theorem qc_preset_setlist_precedence_witness:
  "setlist rule_q = Undefined \<and> currentSetlist sample_session = 3
   \<and> midi_sent (snd (handleOscMessage js_sample sample_session (''/q'', []) (Some ''dev''))) =
       [CC (Num 0) (Num 0) (Num 1), CC (Num 32) (Num 3) (Num 1), Program (Num 8) (Num 1)]
   \<and> setlist rule_q7 = Num 7
   \<and> midi_sent (snd (handleOscMessage js_sample sample_session (''/q7'', []) (Some ''dev''))) =
       [CC (Num 0) (Num 0) (Num 1), CC (Num 32) (Num 7) (Num 1), Program (Num 8) (Num 1)]
   \<and> main js_sample (Rows []) [''dev''] ''dev'' [''dev''] =
       Running \<lparr> mappings = [], currentSetlist = 0 \<rparr> (Some ''dev'')
   \<and> currentSetlist (handle_all js_sample \<lparr> mappings = [], currentSetlist = 0 \<rparr>
         [(''/foo'', [Num 5]), (''/setlist'', [Str ''x''])] (Some ''dev'')) = 0"
proof -
  have e3: "emitted (sendQuadCortexPreset js_sample ''2A'' (Num 1) (Num 3)) =
       [CC (Num 0) (Num 0) (Num 1), CC (Num 32) (Num 3) (Num 1), Program (Num 8) (Num 1)]"
    by (simp add: emitted_def sendQuadCortexPreset_def match_preset_def is_digit_def
          is_A_to_H_ci_def parseInt_def digit_value_def toUpperCase_def js_sample_def)
  have e7: "emitted (sendQuadCortexPreset js_sample ''2A'' (Num 1) (Num 7)) =
       [CC (Num 0) (Num 0) (Num 1), CC (Num 32) (Num 7) (Num 1), Program (Num 8) (Num 1)]"
    by (simp add: emitted_def sendQuadCortexPreset_def match_preset_def is_digit_def
          is_A_to_H_ci_def parseInt_def digit_value_def toUpperCase_def js_sample_def)
  have n: "\<forall>msg \<in> set [(''/foo'', [Num (5::rat)]), (''/setlist'', [Str ''x''])].
             \<not> (normalizeAddress (fst msg) = ''/setlist'' \<and> (\<exists>x rest. snd msg = Num x # rest))"
    by (simp add: normalize_sample)
  have c: "currentSetlist sample_session = 3"
    by (simp add: sample_session_def)
  have a: "midi_sent (snd (handleOscMessage js_sample sample_session (''/q'', []) (Some ''dev''))) =
       [CC (Num 0) (Num 0) (Num 1), CC (Num 32) (Num 3) (Num 1), Program (Num 8) (Num 1)]
     \<and> currentSetlist (handle_all js_sample \<lparr> mappings = [], currentSetlist = 0 \<rparr>
         [(''/foo'', [Num 5]), (''/setlist'', [Str ''x''])] (Some ''dev'')) = 0"
    using qc_preset_setlist_precedence [where env = js_sample and st = sample_session
        and address = "''/q''" and args = "[]" and m = rule_q and presetId = "''2A''"
        and midiOut = "Some ''dev''" and device = "''dev''"
        and source = "Rows []" and openable = "[''dev'']" and name = "''dev''"
        and outputs = "[''dev'']" and ?st0.0 = "\<lparr> mappings = [], currentSetlist = 0 \<rparr>"
        and msgs = "[(''/foo'', [Num 5]), (''/setlist'', [Str ''x''])]"]
      n sample_main e3 c
    by (simp add: normalize_sample find_sample rule_q_eq sample_builtins)
  have b: "midi_sent (snd (handleOscMessage js_sample sample_session (''/q7'', []) (Some ''dev''))) =
       [CC (Num 0) (Num 0) (Num 1), CC (Num 32) (Num 7) (Num 1), Program (Num 8) (Num 1)]"
    using qc_preset_setlist_precedence [where env = js_sample and st = sample_session
        and address = "''/q7''" and args = "[]" and m = rule_q7 and presetId = "''2A''"
        and midiOut = "Some ''dev''" and device = "''dev''"
        and source = "ReadFails" and msgs = "[]"] e7
    by (simp add: normalize_sample find_sample rule_q7_eq)
  have "setlist rule_q = Undefined" and "setlist rule_q7 = Num 7"
    by (simp_all add: rule_q_eq rule_q7_eq)
  then show ?thesis using a b c sample_main by blast
qed

text \<open>
  C7. The OSC leg is meant to send the tokens of \<open>osc_out_args\<close> when that field is
  present and not blank after trimming, and to forward the received arguments when it is
  absent or blank. The handler tests \<^verbatim>\<open>String(mapping.osc_out_args).trim() !== ''\<close>, but
  the loader has already stored a cell of white space as the number zero
  (\<^verbatim>\<open>Number(' ')\<close> is 0, which is not \<^verbatim>\<open>NaN\<close>), whose string form \<open>''0''\<close> is not
  blank. Here the table holds the row \<^verbatim>\<open>/b,,/fwd, \<close> (the \<open>osc_out_args\<close> cell is one
  space, blank after trimming) and the message \<^verbatim>\<open>/b 5 x\<close> arrives: the handler sends the
  single float 0 to \<^verbatim>\<open>/fwd\<close> and does not forward \<open>[5, ''x'']\<close>.
\<close>

theorem blank_out_args_cell_is_not_forwarded:
  "trim '' '' = []
   \<and> convert_cell js_sample '' '' = Num 0
   \<and> osc_out_args rule_blank_cell = Num 0
   \<and> js_String js_sample (osc_out_args rule_blank_cell) = ''0''
   \<and> osc_sent (snd (handleOscMessage js_sample \<lparr> mappings = [rule_blank_cell], currentSetlist = 0 \<rparr>
         (''/b'', [Num 5, Str ''x'']) None)) = [Message (Str ''/fwd'') [FloatArg 0]]
   \<and> osc_sent (snd (handleOscMessage js_sample \<lparr> mappings = [rule_blank_cell], currentSetlist = 0 \<rparr>
         (''/b'', [Num 5, Str ''x'']) None)) \<noteq>
       [Message (Str ''/fwd'') [FloatArg 5, PlainArg (Str ''x'')]]"
proof -
  have t: "trim '' '' = []"
    by (simp add: trim_def is_white_space_def)
  have c: "convert_cell js_sample '' '' = Num 0"
    by (simp add: convert_cell_def sample_number_facts)
  have o: "osc_out_args rule_blank_cell = Num 0"
    by (simp add: rule_blank_cell_eq)
  have j: "js_String js_sample (osc_out_args rule_blank_cell) = ''0''"
    by (simp add: o js_String_def sample_builtins)
  have n: "normalizeAddress ''/b'' \<noteq> ''/setlist''"
    by (simp add: normalizeAddress_def)
  have f: "find_mapping js_sample (mappings \<lparr> mappings = [rule_blank_cell], currentSetlist = 0 \<rparr>)
             (normalizeAddress ''/b'') [Num 5, Str ''x''] = Some rule_blank_cell"
    by (simp add: find_mapping_def rule_matches_def truthy_def normalizeAddress_def
          rule_blank_cell_eq)
  have t0: "trim ''0'' = ''0''"
    by (simp add: trim_def is_white_space_def)
  have l: "osc_leg js_sample rule_blank_cell [Num 5, Str ''x''] = [Message (Str ''/fwd'') [FloatArg 0]]"
    by (simp add: osc_leg_def finalArgs_def truthy_def rule_blank_cell_eq js_String_def
          sample_builtins t0)
  have h: "osc_sent (snd (handleOscMessage js_sample \<lparr> mappings = [rule_blank_cell], currentSetlist = 0 \<rparr>
         (''/b'', [Num 5, Str ''x'']) None)) = [Message (Str ''/fwd'') [FloatArg 0]]"
    by (simp add: handle_resolved [OF n f] l)
  show ?thesis using t c o j h by simp
qed

text \<open>
  What does hold of the OSC leg, on the rule as the handler gets it. For the resolved rule
  with a non-empty (truthy) \<open>osc_out_address\<close>, one OSC message goes to that address. When
  \<open>osc_out_args\<close> is present and its string form is not blank after trimming, the
  arguments are the tokens between single spaces, in order, a token that \<open>parseFloat\<close>
  reads becoming a float and any other token staying a string. When \<open>osc_out_args\<close> is
  absent, or its string form is blank, the arguments are the received ones, in order, each
  number tagged as a float and everything else passed through.
\<close>

theorem osc_leg_arguments:
  assumes "normalizeAddress address \<noteq> ''/setlist''"
    and "find_mapping env (mappings st) (normalizeAddress address) args = Some m"
    and "truthy env (osc_out_address m)"
  shows "(osc_out_args m \<noteq> Undefined \<and> trim (js_String env (osc_out_args m)) \<noteq> [] \<longrightarrow>
            osc_sent (snd (handleOscMessage env st (address, args) midiOut)) =
              [Message (osc_out_address m)
                 (map (\<lambda>token. case parseFloat env token of
                                 Some x \<Rightarrow> FloatArg x | None \<Rightarrow> PlainArg (Str token))
                      (split_space (js_String env (osc_out_args m))))])
       \<and> (osc_out_args m = Undefined \<or> trim (js_String env (osc_out_args m)) = [] \<longrightarrow>
            osc_sent (snd (handleOscMessage env st (address, args) midiOut)) =
              [Message (osc_out_address m)
                 (map (\<lambda>arg. case arg of Num x \<Rightarrow> FloatArg x | _ \<Rightarrow> PlainArg arg) args)])"
proof -
  have "osc_sent (snd (handleOscMessage env st (address, args) midiOut)) = osc_leg env m args"
    using assms(1,2) by (simp add: handle_resolved)
  then show ?thesis
    using assms(3) by (auto simp: osc_leg_def finalArgs_def)
qed

text \<open>
  Receiving \<open>[1.5, ''x'']\<close> on a rule without \<open>osc_out_args\<close> forwards 1.5 as a float and
  \<open>''x''\<close> as a string; so does a rule whose \<open>osc_out_args\<close> is a string of two spaces;
  the rule with \<open>osc_out_args\<close> \<^verbatim>\<open>1.5 on\<close> sends the float 1.5 and the string \<open>''on''\<close>
  whatever it receives.
\<close>

theorem osc_leg_arguments_witness:
  "osc_sent (snd (handleOscMessage js_sample sample_session (''/foo'', [Num (3 / 2), Str ''x'']) None)) =
     [Message (Str ''/bar'') [FloatArg (3 / 2), PlainArg (Str ''x'')]]
   \<and> osc_out_args rule_q = Str ''1.5 on''
   \<and> osc_sent (snd (handleOscMessage js_sample sample_session (''/q'', [Num 5]) None)) =
     [Message (Str ''/out'') [FloatArg (3 / 2), PlainArg (Str ''on'')]]
   \<and> osc_out_args rule_blank_string = Str ''  '' \<and> trim ''  '' = []
   \<and> osc_sent (snd (handleOscMessage js_sample \<lparr> mappings = [rule_blank_string], currentSetlist = 0 \<rparr>
         (''/w'', [Num (3 / 2), Str ''x'']) None)) =
     [Message (Str ''/fwd'') [FloatArg (3 / 2), PlainArg (Str ''x'')]]"
proof -
  have a: "osc_sent (snd (handleOscMessage js_sample sample_session (''/foo'', [Num (3 / 2), Str ''x'']) None)) =
     [Message (Str ''/bar'') [FloatArg (3 / 2), PlainArg (Str ''x'')]]"
    using osc_leg_arguments [of "''/foo''" js_sample sample_session "[Num (3 / 2), Str ''x'']" rule_foo None]
    by (simp add: normalize_sample find_sample rule_foo_eq truthy_def)
  have t: "trim ''1.5 on'' = ''1.5 on''"
    by (simp add: trim_def is_white_space_def)
  have b: "osc_sent (snd (handleOscMessage js_sample sample_session (''/q'', [Num 5]) None)) =
     [Message (Str ''/out'') [FloatArg (3 / 2), PlainArg (Str ''on'')]]"
    using osc_leg_arguments [of "''/q''" js_sample sample_session "[Num 5]" rule_q None]
    by (simp add: normalize_sample find_sample rule_q_eq truthy_def js_String_def t sample_builtins)
  have w: "trim ''  '' = []"
    by (simp add: trim_def is_white_space_def)
  have n: "normalizeAddress ''/w'' \<noteq> ''/setlist''"
    by (simp add: normalizeAddress_def)
  have f: "find_mapping js_sample (mappings \<lparr> mappings = [rule_blank_string], currentSetlist = 0 \<rparr>)
             (normalizeAddress ''/w'') [Num (3 / 2), Str ''x''] = Some rule_blank_string"
    by (simp add: find_mapping_def rule_matches_def truthy_def normalizeAddress_def
          rule_blank_string_def)
  have y: "truthy js_sample (osc_out_address rule_blank_string)"
    by (simp add: truthy_def rule_blank_string_def)
  have c: "osc_sent (snd (handleOscMessage js_sample \<lparr> mappings = [rule_blank_string], currentSetlist = 0 \<rparr>
         (''/w'', [Num (3 / 2), Str ''x'']) None)) =
     [Message (Str ''/fwd'') [FloatArg (3 / 2), PlainArg (Str ''x'')]]"
    using osc_leg_arguments [OF n f y, of None] w
    by (simp add: rule_blank_string_def js_String_def)
  show ?thesis using a b c w by (simp add: rule_q_eq rule_blank_string_def)
qed

text \<open>
  C8. In the MIDI leg (the resolved rule has a channel and a device is open), a rule of
  type \<^verbatim>\<open>cc\<close> with a controller sends exactly one control change, and a rule of type
  \<^verbatim>\<open>pc\<close> exactly one program change, which has no controller; the value \<open>v\<close> of either
  is the rule's \<open>midi_value\<close> when defined, else the first received argument when that is
  a number, else 0.
\<close>

theorem cc_pc_value:
  assumes "normalizeAddress address \<noteq> ''/setlist''"
    and "find_mapping env (mappings st) (normalizeAddress address) args = Some m"
    and "midi_channel m \<noteq> Undefined" and "midiOut = Some device"
    and "v = (if midi_value m \<noteq> Undefined then midi_value m
              else (case args of Num x # rest \<Rightarrow> Num x | _ \<Rightarrow> Num (num_lit env 0)))"
  shows "(midi_type m = Str ''cc'' \<and> midi_controller m \<noteq> Undefined \<longrightarrow>
            midi_sent (snd (handleOscMessage env st (address, args) midiOut)) =
              [CC (midi_controller m) v (midi_channel m)])
       \<and> (midi_type m = Str ''pc'' \<longrightarrow>
            midi_sent (snd (handleOscMessage env st (address, args) midiOut)) =
              [Program v (midi_channel m)])"
proof -
  have v: "value_or_first_arg env m args = v"
    unfolding assms(5)
    by (auto simp: value_or_first_arg_def first_arg_def split: list.splits jsval.splits)
  show ?thesis
    using assms(1-4) by (simp add: handle_resolved midi_leg_def truthy_def Let_def v)
qed

theorem cc_pc_value_witness:
  "midi_sent (snd (handleOscMessage js_sample sample_session (''/cc'', [Num 5]) (Some ''dev''))) =
     [CC (Num 64) (Num 100) (Num 1)]
   \<and> midi_sent (snd (handleOscMessage js_sample sample_session (''/foo'', [Num 5, Num 7]) (Some ''dev''))) =
     [Program (Num 5) (Num 1)]
   \<and> midi_sent (snd (handleOscMessage js_sample sample_session (''/foo'', [Str ''x'', Num 7]) (Some ''dev''))) =
     [Program (Num 0) (Num 1)]
   \<and> midi_sent (snd (handleOscMessage js_sample sample_session (''/foo'', []) (Some ''dev''))) =
     [Program (Num 0) (Num 1)]"
proof -
  have ncc: "normalizeAddress ''/cc'' \<noteq> ''/setlist''" and nfoo: "normalizeAddress ''/foo'' \<noteq> ''/setlist''"
    by (simp_all add: normalize_sample)
  have fcc: "find_mapping js_sample (mappings sample_session) (normalizeAddress ''/cc'') args = Some rule_cc"
    and ffoo: "find_mapping js_sample (mappings sample_session) (normalizeAddress ''/foo'') args = Some rule_foo"
    for args by (simp_all add: normalize_sample find_sample)
  have ccc: "midi_channel rule_cc \<noteq> Undefined" and cfoo: "midi_channel rule_foo \<noteq> Undefined"
    by (simp_all add: rule_cc_eq rule_foo_eq)
  have a: "midi_sent (snd (handleOscMessage js_sample sample_session (''/cc'', [Num 5]) (Some ''dev''))) =
     [CC (Num 64) (Num 100) (Num 1)]"
    using cc_pc_value [OF ncc fcc ccc refl refl, of "[Num 5]" "''dev''"]
    by (simp add: rule_cc_eq)
  have b: "midi_sent (snd (handleOscMessage js_sample sample_session (''/foo'', [Num 5, Num 7]) (Some ''dev''))) =
     [Program (Num 5) (Num 1)]"
    using cc_pc_value [OF nfoo ffoo cfoo refl refl, of "[Num 5, Num 7]" "''dev''"]
    by (simp add: rule_foo_eq)
  have c: "midi_sent (snd (handleOscMessage js_sample sample_session (''/foo'', [Str ''x'', Num 7]) (Some ''dev''))) =
     [Program (Num 0) (Num 1)]"
    using cc_pc_value [OF nfoo ffoo cfoo refl refl, of "[Str ''x'', Num 7]" "''dev''"]
    by (simp add: rule_foo_eq sample_builtins)
  have d: "midi_sent (snd (handleOscMessage js_sample sample_session (''/foo'', []) (Some ''dev''))) =
     [Program (Num 0) (Num 1)]"
    using cc_pc_value [OF nfoo ffoo cfoo refl refl, of "[]" "''dev''"]
    by (simp add: rule_foo_eq sample_builtins)
  show ?thesis using a b c d by blast
qed

text \<open>
  A preset identifier cell of digits only (\<^verbatim>\<open>5\<close>) is loaded as a number. With a device
  open, the call of the encoder on it throws a \<^verbatim>\<open>TypeError\<close> after the OSC leg has been
  sent; no MIDI message is sent.
\<close>

theorem numeric_preset_id_throws:
  assumes "normalizeAddress address \<noteq> ''/setlist''"
    and "find_mapping env (mappings st) (normalizeAddress address) args = Some m"
    and "midi_type m = Str ''qc_preset''" and "midi_channel m \<noteq> Undefined"
    and "qc_preset_id m = Num n" and "\<not> num_falsy env n"
  shows "thrown (snd (handleOscMessage env st (address, args) (Some device))) = Some TypeError
       \<and> midi_sent (snd (handleOscMessage env st (address, args) (Some device))) = []
       \<and> osc_sent (snd (handleOscMessage env st (address, args) (Some device))) = osc_leg env m args"
  using assms by (simp add: handle_resolved midi_leg_def truthy_def Let_def)

theorem numeric_preset_id_throws_witness:
  "convert_cell js_sample ''5'' = Num 5 \<and> qc_preset_id rule_numeric_preset = Num 5
   \<and> thrown (snd (handleOscMessage js_sample \<lparr> mappings = [rule_numeric_preset], currentSetlist = 0 \<rparr>
        (''/n'', []) (Some ''dev''))) = Some TypeError
   \<and> midi_sent (snd (handleOscMessage js_sample \<lparr> mappings = [rule_numeric_preset], currentSetlist = 0 \<rparr>
        (''/n'', []) (Some ''dev''))) = []"
proof -
  have n: "normalizeAddress ''/n'' \<noteq> ''/setlist''"
    by (simp add: normalizeAddress_def)
  have f: "find_mapping js_sample (mappings \<lparr> mappings = [rule_numeric_preset], currentSetlist = 0 \<rparr>)
             (normalizeAddress ''/n'') [] = Some rule_numeric_preset"
    by (simp add: find_mapping_def rule_matches_def truthy_def normalizeAddress_def
          rule_numeric_preset_eq)
  have t: "midi_type rule_numeric_preset = Str ''qc_preset''"
    and c: "midi_channel rule_numeric_preset \<noteq> Undefined"
    and q: "qc_preset_id rule_numeric_preset = Num 5"
    by (simp_all add: rule_numeric_preset_eq)
  have v: "convert_cell js_sample ''5'' = Num 5"
    by (simp add: convert_cell_def js_sample_def sample_numbers_def)
  show ?thesis
    using numeric_preset_id_throws [OF n f t c q sample_builtins(4), of "''dev''"] q v by simp
qed

text \<open>
  The table over the life of the process. It is loaded once, in \<^verbatim>\<open>main\<close>: when the
  parser fails the load is rejected and the process exits with status 1, when the read
  stream fails the error event is uncaught, and otherwise the converted rows are installed
  in file order, with the setlist 0. After that no inbound message, and no sequence of
  them, changes the table: the handler is the only code that runs, and there is no
  operation that reloads.
\<close>

theorem table_loaded_once_at_startup:
  "main env ParseFails openable name outputs = Exited 1
   \<and> main env ReadFails openable name outputs = Crashed
   \<and> main env (Rows rows) openable name outputs =
       Running \<lparr> mappings = map (row_to_mapping env) rows, currentSetlist = num_lit env 0 \<rparr>
               (init_midi openable name outputs)
   \<and> mappings (fst (handleOscMessage env st msg midiOut)) = mappings st
   \<and> mappings (handle_all env st msgs midiOut) = mappings st"
  by (simp add: main_def loadMappings_def handle_mappings_unchanged handle_all_mappings_unchanged)

theorem table_loaded_once_at_startup_witness:
  "main js_sample ParseFails [''dev''] ''dev'' [''dev''] = Exited 1
   \<and> main js_sample ReadFails [''dev''] ''dev'' [''dev''] = Crashed
   \<and> main js_sample (Rows [[''osc_in_address'' \<mapsto> ''/a'', ''osc_in_args'' \<mapsto> ''0'',
                              ''osc_out_address'' \<mapsto> ''/zero'']]) [] ''dev'' [''dev''] =
       Running \<lparr> mappings = [rule_zero], currentSetlist = 0 \<rparr> None
   \<and> mappings (fst (handleOscMessage js_sample sample_session (''/setlist'', [Num 5]) None)) =
       mappings sample_session
   \<and> mappings (handle_all js_sample sample_session
         [(''/setlist'', [Num 5]), (''/foo'', []), (''/refresh'', [])] (Some ''dev'')) =
       mappings sample_session"
  using table_loaded_once_at_startup [of js_sample "[''dev'']" "''dev''" "[''dev'']"]
    table_loaded_once_at_startup [of js_sample "[]" "''dev''" "[''dev'']"
      "[[''osc_in_address'' \<mapsto> ''/a'', ''osc_in_args'' \<mapsto> ''0'', ''osc_out_address'' \<mapsto> ''/zero'']]"
      sample_session "(''/setlist'', [Num 5])" None]
    table_loaded_once_at_startup [of js_sample "[]" "''dev''" "[''dev'']" "[]"
      sample_session _ "Some ''dev''" "[(''/setlist'', [Num 5]), (''/foo'', []), (''/refresh'', [])]"]
  by (simp add: rule_zero_def init_midi_def sample_builtins)

text \<open>
  C10. With no MIDI device open (\<^verbatim>\<open>midiOut\<close> null) the handler sends no MIDI message and
  throws nothing, whatever the rule says; the OSC messages it sends and the session it
  leaves are the same as with a device open.
\<close>

theorem no_device_no_midi:
  "midi_sent (snd (handleOscMessage env st msg None)) = []
   \<and> thrown (snd (handleOscMessage env st msg None)) = None
   \<and> osc_sent (snd (handleOscMessage env st msg None)) =
       osc_sent (snd (handleOscMessage env st msg midiOut))
   \<and> fst (handleOscMessage env st msg None) = fst (handleOscMessage env st msg midiOut)"
  by (auto simp: handleOscMessage_def Let_def midi_leg_def no_effects_def
           split: jsval.splits option.splits)

theorem no_device_no_midi_witness:
  "midi_sent (snd (handleOscMessage js_sample sample_session (''/foo'', [Num 5]) None)) = []
   \<and> midi_sent (snd (handleOscMessage js_sample sample_session (''/foo'', [Num 5]) (Some ''dev''))) =
       [Program (Num 5) (Num 1)]
   \<and> osc_sent (snd (handleOscMessage js_sample sample_session (''/foo'', [Num 5]) None)) =
       [Message (Str ''/bar'') [FloatArg 5]]
   \<and> osc_sent (snd (handleOscMessage js_sample sample_session (''/foo'', [Num 5]) (Some ''dev''))) =
       [Message (Str ''/bar'') [FloatArg 5]]"
proof -
  have h: "handleOscMessage js_sample sample_session (''/foo'', [Num 5]) (Some ''dev'') =
     (sample_session, \<lparr> osc_sent = osc_leg js_sample rule_foo [Num 5],
            midi_sent = (case midi_leg js_sample (currentSetlist sample_session) rule_foo [Num 5] (Some ''dev'') of
                           Inl e \<Rightarrow> [] | Inr ms \<Rightarrow> ms),
            thrown = (case midi_leg js_sample (currentSetlist sample_session) rule_foo [Num 5] (Some ''dev'') of
                        Inl e \<Rightarrow> Some e | Inr ms \<Rightarrow> None) \<rparr>)"
    by (rule handle_resolved) (simp_all add: normalize_sample find_sample)
  have m: "midi_sent (snd (handleOscMessage js_sample sample_session (''/foo'', [Num 5]) (Some ''dev''))) =
       [Program (Num 5) (Num 1)]"
    by (simp add: h midi_leg_def truthy_def rule_foo_eq value_or_first_arg_def first_arg_def)
  have o: "osc_sent (snd (handleOscMessage js_sample sample_session (''/foo'', [Num 5]) (Some ''dev''))) =
       [Message (Str ''/bar'') [FloatArg 5]]"
    by (simp add: h osc_leg_def finalArgs_def truthy_def rule_foo_eq)
  show ?thesis
    using no_device_no_midi [of js_sample sample_session "(''/foo'', [Num 5])" "Some ''dev''"] m o
    by simp
qed

end
